theory Spec2Isabelle
  imports Main "HOL-Library.AList"
begin

section \<open>Errors and Python values\<close>

text \<open>
  The exceptions that the modelled code paths of \<^verbatim>\<open>arrowmatrix\<close> can raise. Every
  constructor is a Python exception class; the string is the message. Messages raised
  by the repository's own code are reproduced; messages raised inside numpy, pandas or
  pyarrow are shortened (their shape and name details are left out).
\<close>

datatype error =
    ValueError string
  | KeyError string
  | IndexError string
  | TypeError string
  | MissingShapeError string
  | FileExistsError string
  | IOError string
  | AssertionError string

subsection \<open>\<^verbatim>\<open>str\<close> of an integer\<close>

definition digit_char :: "nat \<Rightarrow> char" where
  "digit_char d = ''0123456789'' ! d"

fun str_nat :: "nat \<Rightarrow> string" where
  "str_nat n = (if n < 10 then [digit_char n] else str_nat (n div 10) @ [digit_char (n mod 10)])"

declare str_nat.simps [simp del]

definition str_int :: "int \<Rightarrow> string" where
  "str_int i = (if i < 0 then CHR ''-'' # str_nat (nat (- i)) else str_nat (nat i))"

section \<open>numpy arrays of integers\<close>

text \<open>
  A one-dimensional integer array is an \<open>int list\<close>. \<^verbatim>\<open>np.prod\<close> of a tuple of Python
  integers is their product; of the empty tuple it is 1 (numpy returns the float
  \<^verbatim>\<open>1.0\<close> there, the model keeps the numeric value).
\<close>

definition np_prod :: "int list \<Rightarrow> int" where
  "np_prod xs = prod_list xs"

text \<open>
  An index argument of \<^verbatim>\<open>get_rc\<close> / \<^verbatim>\<open>_takers\<close> is ``array-like or int''. Both become a
  flat array under \<^verbatim>\<open>np.asarray(index).reshape(-1)\<close>; a scalar becomes an array of
  length one.
\<close>

datatype index_arg = Scalar int | Seq "int list"

fun asarray_flat :: "index_arg \<Rightarrow> int list" where
  "asarray_flat (Scalar i) = [i]"
| "asarray_flat (Seq xs) = xs"

text \<open>
  \<^verbatim>\<open>takers += x\<close> on one-dimensional arrays: numpy adds element by element when the
  lengths agree, broadcasts \<open>x\<close> when it has length one, and raises \<^verbatim>\<open>ValueError\<close>
  otherwise (the result has to fit the array on the left, so the left operand is never
  stretched).
\<close>

definition np_iadd :: "int list \<Rightarrow> int list \<Rightarrow> error + int list" where
  "np_iadd takers x =
     (if length x = length takers then Inr (map2 (+) takers x)
      else if length x = 1 then Inr (map (\<lambda>t. t + hd x) takers)
      else Inl (ValueError ''operands could not be broadcast together''))"

text \<open>\<^verbatim>\<open>index * np.prod(...)\<close>: an array times a scalar.\<close>

definition np_scale :: "int list \<Rightarrow> int \<Rightarrow> int list" where
  "np_scale xs c = map (\<lambda>x. x * c) xs"

section \<open>pandas row labels\<close>

record multi_index =
  mi_names :: "string option list"
  mi_arrays :: "int list list"

fun same_lengths :: "'a list list \<Rightarrow> bool" where
  "same_lengths (a # b # rest) = (length a = length b \<and> same_lengths (b # rest))"
| "same_lengths _ = True"

text \<open>
  \<^verbatim>\<open>pd.MultiIndex.from_arrays(arrays, names=names)\<close>: the arrays must all have one length,
  there must be at least one of them, and there must be one name for each (a level
  without a name has the name \<^verbatim>\<open>None\<close>).
\<close>

definition MultiIndex_from_arrays ::
  "int list list \<Rightarrow> string option list \<Rightarrow> error + multi_index" where
  "MultiIndex_from_arrays arrays names =
     (if \<not> same_lengths arrays then Inl (ValueError ''all arrays must be same length'')
      else if arrays = [] then Inl (ValueError ''Must pass non-zero number of levels/codes'')
      else if length names \<noteq> length arrays
        then Inl (ValueError ''Length of names must match number of levels in MultiIndex.'')
      else Inr \<lparr>mi_names = names, mi_arrays = arrays\<rparr>)"

section \<open>The matrix object\<close>

text \<open>
  \<^verbatim>\<open>AbstractArrowMatrix.__init__\<close> stores \<^verbatim>\<open>filename\<close>, \<^verbatim>\<open>_omx_version\<close> and \<^verbatim>\<open>_shape\<close>
  (\<^verbatim>\<open>None\<close> or a tuple). The \<^verbatim>\<open>shape\<close> property raises \<^verbatim>\<open>MissingShapeError\<close> when
  \<^verbatim>\<open>_shape\<close> is \<^verbatim>\<open>None\<close>, and \<^verbatim>\<open>ndims\<close> is \<^verbatim>\<open>len(self.shape)\<close>.
\<close>

record matrix_base =
  m_filename :: string
  m_omx_version :: "string option"
  m_shape :: "int list option"

definition shape :: "'z matrix_base_scheme \<Rightarrow> error + int list" where
  "shape self = (case m_shape self of None \<Rightarrow> Inl (MissingShapeError []) | Some s \<Rightarrow> Inr s)"

definition ndims :: "'z matrix_base_scheme \<Rightarrow> error + nat" where
  "ndims self = (case shape self of Inl e \<Rightarrow> Inl e | Inr s \<Rightarrow> Inr (length s))"

subsection \<open>Coordinate index mapper\<close>

text \<open>
  \<^verbatim>\<open>_get_rc_preprocess\<close>: the default level names are the letters of
  \<^verbatim>\<open>'ijklmnopqrstuvwxyz'\<close> zipped with the indexes (the index arguments modelled here are
  plain integers and sequences, which have no \<^verbatim>\<open>name\<close> attribute); every index is
  flattened; the row label is built only when \<^verbatim>\<open>attach_index\<close> is truthy.
\<close>

definition get_rc_preprocess ::
  "index_arg list \<Rightarrow> bool \<Rightarrow> error + (int list list \<times> multi_index option)" where
  "get_rc_preprocess indexes attach_index =
     (let index_names = map (\<lambda>(index, letter). Some [letter]) (zip indexes ''ijklmnopqrstuvwxyz'');
          arrays = map asarray_flat indexes
      in if attach_index
         then (case MultiIndex_from_arrays arrays index_names of
                 Inl e \<Rightarrow> Inl e
               | Inr idx \<Rightarrow> Inr (arrays, Some idx))
         else Inr (arrays, None))"

text \<open>
  The loop of \<^verbatim>\<open>_takers\<close> over \<^verbatim>\<open>indexes[1:]\<close>, with its counter \<open>n\<close> and the accumulated
  \<open>takers\<close>:
  \<^verbatim>\<open>
    for index in indexes[1:]:
        n += 1
        if n >= self.ndims:
            takers += index
        else:
            takers += index * np.prod(self.shape[n:])
  \<close>
\<close>

fun takers_loop :: "int list \<Rightarrow> nat \<Rightarrow> int list \<Rightarrow> int list list \<Rightarrow> error + int list" where
  "takers_loop shp n takers [] = Inr takers"
| "takers_loop shp n takers (index # rest) =
     (let n' = n + 1 in
      case (if n' \<ge> length shp then np_iadd takers index
            else np_iadd takers (np_scale index (np_prod (drop n' shp)))) of
        Inl e \<Rightarrow> Inl e
      | Inr takers' \<Rightarrow> takers_loop shp n' takers' rest)"

definition takers ::
  "'z matrix_base_scheme \<Rightarrow> index_arg list \<Rightarrow> bool \<Rightarrow> error + (int list \<times> multi_index option)" where
  "takers self indexes attach_index =
     (case ndims self of
        Inl e \<Rightarrow> Inl e
      | Inr nd \<Rightarrow>
          if length indexes \<noteq> nd
          then Inl (ValueError (''number of indexes ('' @ str_int (int (length indexes))
                      @ '') does not match ndims ('' @ str_int (int nd) @ '')''))
          else (case get_rc_preprocess indexes attach_index of
                  Inl e \<Rightarrow> Inl e
                | Inr (arrays, idx) \<Rightarrow>
                    (case shape self of
                       Inl e \<Rightarrow> Inl e
                     | Inr shp \<Rightarrow>
                        (case arrays of
                           [] \<Rightarrow> Inl (IndexError ''list index out of range'')
                         | first # rest \<Rightarrow>
                             (case takers_loop shp 1 (np_scale first (np_prod (drop 1 shp))) rest of
                                Inl e \<Rightarrow> Inl e
                              | Inr t \<Rightarrow> Inr (t, idx))))))"


section \<open>Shape text: \<^verbatim>\<open>str\<close> of a tuple and \<^verbatim>\<open>ast.literal_eval\<close>\<close>

text \<open>
  Python renders a tuple of integers as \<^verbatim>\<open>()\<close>, \<^verbatim>\<open>(5,)\<close> or \<^verbatim>\<open>(25, 25)\<close>.
  \<^verbatim>\<open>str(shape).encode()\<close> and \<^verbatim>\<open>.decode()\<close> are UTF-8 and leave these ASCII texts
  unchanged, so byte strings and strings share the type \<open>string\<close>.
\<close>

fun join :: "string \<Rightarrow> string list \<Rightarrow> string" where
  "join sep [] = []"
| "join sep [x] = x"
| "join sep (x # y # ys) = x @ sep @ join sep (y # ys)"

definition str_tuple :: "int list \<Rightarrow> string" where
  "str_tuple xs =
     (case xs of
        [] \<Rightarrow> ''()''
      | [x] \<Rightarrow> ''('' @ str_int x @ '',)''
      | _ \<Rightarrow> ''('' @ join '', '' (map str_int xs) @ '')'')"

text \<open>
  \<^verbatim>\<open>ast.literal_eval\<close> on the texts that matter here: a decimal integer literal
  (optionally negated, no leading zero) and a tuple of such literals written the way
  \<^verbatim>\<open>str\<close> writes it. Whenever this parser returns a value, Python returns the same
  value; every other text is reported as malformed (Python accepts more spellings, which
  no code path below produces).
\<close>

datatype literal = LInt int | LTuple "int list"

definition digit_val :: "char \<Rightarrow> nat option" where
  "digit_val c = map_option fst (find (\<lambda>p. snd p = c) (zip [0..<10] ''0123456789''))"

fun parse_digits :: "nat \<Rightarrow> string \<Rightarrow> nat option" where
  "parse_digits acc [] = Some acc"
| "parse_digits acc (c # cs) =
     (case digit_val c of None \<Rightarrow> None | Some d \<Rightarrow> parse_digits (10 * acc + d) cs)"

definition parse_nat :: "string \<Rightarrow> nat option" where
  "parse_nat s =
     (if s = [] then None
      else if length s > 1 \<and> hd s = CHR ''0'' then None
      else parse_digits 0 s)"

definition parse_int :: "string \<Rightarrow> int option" where
  "parse_int s =
     (case s of
        [] \<Rightarrow> None
      | c # r \<Rightarrow> if c = CHR ''-'' then map_option (\<lambda>n. - int n) (parse_nat r)
                 else map_option int (parse_nat s))"

fun split_on :: "char \<Rightarrow> string \<Rightarrow> string list" where
  "split_on c [] = [[]]"
| "split_on c (x # xs) =
     (if x = c then [] # split_on c xs
      else (case split_on c xs of [] \<Rightarrow> [[x]] | w # ws \<Rightarrow> (x # w) # ws))"

definition parse_elem :: "string \<Rightarrow> int option" where
  "parse_elem s = (case s of [] \<Rightarrow> None | c # r \<Rightarrow> if c = CHR '' '' then parse_int r else None)"

definition malformed :: error where
  "malformed = ValueError ''malformed node or string''"

definition parse_items :: "string \<Rightarrow> error + literal" where
  "parse_items body =
     (case split_on CHR '','' body of
        [] \<Rightarrow> Inl malformed
      | [p] \<Rightarrow> Inl malformed
      | p # q # rest \<Rightarrow>
          if q = [] \<and> rest = []
          then (case parse_int p of None \<Rightarrow> Inl malformed | Some i \<Rightarrow> Inr (LTuple [i]))
          else (case those (parse_int p # map parse_elem (q # rest)) of
                  None \<Rightarrow> Inl malformed
                | Some is \<Rightarrow> Inr (LTuple is)))"

definition literal_eval :: "string \<Rightarrow> error + literal" where
  "literal_eval s =
     (case s of
        [] \<Rightarrow> Inl malformed
      | c # r \<Rightarrow>
          if c = CHR ''(''
          then (if r = '')'' then Inr (LTuple [])
                else if r \<noteq> [] \<and> last r = CHR '')'' then parse_items (butlast r)
                else Inl malformed)
          else (case parse_int s of None \<Rightarrow> Inl malformed | Some i \<Rightarrow> Inr (LInt i)))"

section \<open>numpy arrays with a shape\<close>

text \<open>
  A C-contiguous \<^verbatim>\<open>ndarray\<close>: its shape and its elements in row-major order.
  \<^verbatim>\<open>reshape\<close> keeps the elements and replaces the shape; one dimension may be given as
  \<open>-1\<close> and is then inferred; the new shape must account for every element.
\<close>

record 'a ndarray =
  nd_shape :: "int list"
  nd_data :: "'a list"

definition reshape_error :: error where
  "reshape_error = ValueError ''cannot reshape array''"

definition np_reshape :: "'a ndarray \<Rightarrow> int list \<Rightarrow> error + 'a ndarray" where
  "np_reshape a shp =
     (let total = int (length (nd_data a));
          unknown = filter (\<lambda>d. d < 0) shp;
          known = prod_list (filter (\<lambda>d. \<not> d < 0) shp)
      in if unknown = []
         then (if known = total then Inr (a\<lparr>nd_shape := shp\<rparr>) else Inl reshape_error)
         else if unknown = [-1] \<and> known \<noteq> 0 \<and> total mod known = 0
         then Inr (a\<lparr>nd_shape := map (\<lambda>d. if d < 0 then total div known else d) shp\<rparr>)
         else Inl reshape_error)"

text \<open>\<^verbatim>\<open>a.reshape(-1)\<close>: the flat view\<close>

definition reshape_flat :: "'a ndarray \<Rightarrow> 'a list" where
  "reshape_flat a = nd_data a"

text \<open>
  \<^verbatim>\<open>np.arange(start, stop, step)\<close> on integers (\<open>step\<close> is never zero where it is
  called: \<^verbatim>\<open>_slice_to_range\<close> passes \<^verbatim>\<open>s.step or 1\<close>). With \<^verbatim>\<open>stop=None\<close> numpy counts
  from zero up to \<open>start\<close>.
\<close>

definition arange_len :: "int \<Rightarrow> int \<Rightarrow> int \<Rightarrow> nat" where
  "arange_len start stop step =
     (if step > 0 then nat ((stop - start + step - 1) div step)
      else if step < 0 then nat ((start - stop + (- step) - 1) div (- step))
      else 0)"

definition np_arange :: "int \<Rightarrow> int option \<Rightarrow> int \<Rightarrow> int list" where
  "np_arange start stop step =
     (case stop of
        None \<Rightarrow> map (\<lambda>k. int k * step) [0..<arange_len 0 start step]
      | Some e \<Rightarrow> map (\<lambda>k. start + int k * step) [0..<arange_len start e step])"

text \<open>
  Two-dimensional integer grids are kept as their shape and their row-major elements.
  \<^verbatim>\<open>np.add(col * c, row)\<close> with \<open>col\<close> of shape \<open>(n, 1)\<close> and \<open>row\<close> of shape \<open>(m,)\<close>
  broadcasts to shape \<open>(n, m)\<close>; \<^verbatim>\<open>np.broadcast_to(a, (r, c))\<close> needs every axis of \<open>a\<close> to
  have the target length or length one.
\<close>

record grid =
  g_shape :: "nat \<times> nat"
  g_data :: "int list"

definition reshape_column :: "int list \<Rightarrow> grid" where
  "reshape_column xs = \<lparr>g_shape = (length xs, 1), g_data = xs\<rparr>"

definition as_row :: "int list \<Rightarrow> grid" where
  "as_row xs = \<lparr>g_shape = (1, length xs), g_data = xs\<rparr>"

definition grid_scale :: "grid \<Rightarrow> int \<Rightarrow> grid" where
  "grid_scale g c = g\<lparr>g_data := map (\<lambda>x. x * c) (g_data g)\<rparr>"

definition np_add_outer :: "grid \<Rightarrow> int list \<Rightarrow> grid" where
  "np_add_outer col row =
     \<lparr>g_shape = (fst (g_shape col), length row),
      g_data = concat (map (\<lambda>a. map (\<lambda>b. a + b) row) (g_data col))\<rparr>"

definition np_broadcast_to :: "grid \<Rightarrow> nat \<times> nat \<Rightarrow> error + grid" where
  "np_broadcast_to g target =
     (let (sr, sc) = g_shape g; (r, c) = target
      in if (sr = r \<or> sr = 1) \<and> (sc = c \<or> sc = 1)
         then Inr \<lparr>g_shape = target,
                   g_data = concat (map (\<lambda>i. map (\<lambda>j. g_data g !
                              ((if sr = 1 then 0 else i) * sc + (if sc = 1 then 0 else j)))
                              [0..<c]) [0..<r])\<rparr>
         else Inl (ValueError ''operands could not be broadcast together''))"

section \<open>Arrow tables and pandas frames\<close>

text \<open>
  A \<^verbatim>\<open>pyarrow.Table\<close>: its named columns in schema order, its number of rows, and the
  schema's metadata (\<^verbatim>\<open>None\<close> or a dictionary from byte strings to byte strings, kept
  in insertion order). In a table that pyarrow builds every column has as many cells as
  the table has rows. The cell type \<open>'a\<close> is left open.
\<close>

record 'a arrow_table =
  t_columns :: "(string \<times> 'a list) list"
  t_num_rows :: nat
  t_metadata :: "(string \<times> string) list option"

fun collect :: "(error + 'a) list \<Rightarrow> error + 'a list" where
  "collect [] = Inr []"
| "collect (r # rs) =
     (case r of
        Inl e \<Rightarrow> Inl e
      | Inr x \<Rightarrow> (case collect rs of Inl e \<Rightarrow> Inl e | Inr xs \<Rightarrow> Inr (x # xs)))"

text \<open>
  \<^verbatim>\<open>Table.select(names)\<close> looks every name up in the schema and raises \<^verbatim>\<open>KeyError\<close> when the
  name is absent or occurs more than once.
\<close>

definition field_by_name :: "(string \<times> 'a list) list \<Rightarrow> string \<Rightarrow> error + (string \<times> 'a list)" where
  "field_by_name cols name =
     (case filter (\<lambda>c. fst c = name) cols of
        [] \<Rightarrow> Inl (KeyError name)
      | [c] \<Rightarrow> Inr c
      | _ \<Rightarrow> Inl (KeyError name))"

definition table_select :: "'a arrow_table \<Rightarrow> string list \<Rightarrow> error + 'a arrow_table" where
  "table_select t names =
     (case collect (map (field_by_name (t_columns t)) names) of
        Inl e \<Rightarrow> Inl e
      | Inr cs \<Rightarrow> Inr (t\<lparr>t_columns := cs\<rparr>))"

text \<open>
  \<^verbatim>\<open>ParquetFile.read(columns=names)\<close> reads the named columns that exist, each once, in the
  order they are first asked for; a name that is not in the file is passed over.
\<close>

definition first_occurrences :: "'b list \<Rightarrow> 'b list" where
  "first_occurrences xs = rev (remdups (rev xs))"

definition parquet_read :: "'a arrow_table \<Rightarrow> string list \<Rightarrow> 'a arrow_table" where
  "parquet_read t names =
     t\<lparr>t_columns := concat (map (\<lambda>n. filter (\<lambda>c. fst c = n) (t_columns t))
                                (first_occurrences names))\<rparr>"

text \<open>
  \<^verbatim>\<open>Table.take(indices)\<close> gathers rows by position, in the order asked and with repeats; an
  index below zero or beyond the last row raises \<^verbatim>\<open>IndexError\<close>.
\<close>

definition take_ok :: "nat \<Rightarrow> int list \<Rightarrow> bool" where
  "take_ok n idxs = list_all (\<lambda>i. 0 \<le> i \<and> i < int n) idxs"

definition table_take :: "'a arrow_table \<Rightarrow> int list \<Rightarrow> error + 'a arrow_table" where
  "table_take t idxs =
     (if take_ok (t_num_rows t) idxs
      then Inr (t\<lparr>t_columns := map (\<lambda>c. (fst c, map (\<lambda>i. snd c ! nat i) idxs)) (t_columns t),
                 t_num_rows := length idxs\<rparr>)
      else Inl (IndexError ''index out of bounds''))"

text \<open>
  pandas objects: the row label is a \<^verbatim>\<open>RangeIndex\<close> of some length, a list of integer
  labels, or a \<^verbatim>\<open>MultiIndex\<close>.
\<close>

datatype pd_index = RangeIndex nat | Int64Index "int list" | MultiIndex multi_index

record 'a data_frame =
  df_index :: pd_index
  df_columns :: "(string \<times> 'a list) list"

record 'a series =
  s_index :: pd_index
  s_name :: string
  s_values :: "'a list"

definition index_len :: "pd_index \<Rightarrow> nat" where
  "index_len ix =
     (case ix of
        RangeIndex n \<Rightarrow> n
      | Int64Index xs \<Rightarrow> length xs
      | MultiIndex mi \<Rightarrow> (case mi_arrays mi of [] \<Rightarrow> 0 | a # _ \<Rightarrow> length a))"

text \<open>\<^verbatim>\<open>Table.to_pandas()\<close>: the same columns under a fresh \<^verbatim>\<open>RangeIndex\<close>.\<close>

definition to_pandas :: "'a arrow_table \<Rightarrow> 'a data_frame" where
  "to_pandas t = \<lparr>df_index = RangeIndex (t_num_rows t), df_columns = t_columns t\<rparr>"

text \<open>
  \<^verbatim>\<open>table.column(0).to_pandas()\<close>: the first column as a named series; \<^verbatim>\<open>IndexError\<close> when the
  table has no column.
\<close>

definition column0_to_pandas :: "'a arrow_table \<Rightarrow> error + 'a series" where
  "column0_to_pandas t =
     (case t_columns t of
        [] \<Rightarrow> Inl (IndexError ''column index out of range'')
      | c # _ \<Rightarrow> Inr \<lparr>s_index = RangeIndex (length (snd c)), s_name = fst c, s_values = snd c\<rparr>)"

text \<open>
  Positional indexing \<^verbatim>\<open>.iloc[takers]\<close>: positions from \<open>-n\<close> to \<open>n - 1\<close> are accepted,
  negative ones counting from the end; the result carries the labels of the rows taken,
  which under a \<^verbatim>\<open>RangeIndex\<close> are their positions.
\<close>

definition iloc_ok :: "nat \<Rightarrow> int list \<Rightarrow> bool" where
  "iloc_ok n idxs = list_all (\<lambda>i. - int n \<le> i \<and> i < int n) idxs"

definition iloc_pos :: "nat \<Rightarrow> int \<Rightarrow> nat" where
  "iloc_pos n i = nat (if i < 0 then i + int n else i)"

definition iloc_error :: error where
  "iloc_error = IndexError ''positional indexers are out-of-bounds''"

definition index_labels :: "pd_index \<Rightarrow> nat list \<Rightarrow> pd_index" where
  "index_labels ix ps =
     (case ix of
        RangeIndex n \<Rightarrow> Int64Index (map int ps)
      | Int64Index xs \<Rightarrow> Int64Index (map (\<lambda>p. xs ! p) ps)
      | MultiIndex mi \<Rightarrow> MultiIndex (mi\<lparr>mi_arrays := map (\<lambda>a. map (\<lambda>p. a ! p) ps) (mi_arrays mi)\<rparr>))"

definition df_iloc :: "'a data_frame \<Rightarrow> int list \<Rightarrow> error + 'a data_frame" where
  "df_iloc df idxs =
     (let n = index_len (df_index df) in
      if iloc_ok n idxs
      then Inr \<lparr>df_index = index_labels (df_index df) (map (iloc_pos n) idxs),
                df_columns = map (\<lambda>c. (fst c, map (\<lambda>i. snd c ! iloc_pos n i) idxs)) (df_columns df)\<rparr>
      else Inl iloc_error)"

text \<open>\<^verbatim>\<open>df.iloc[takers, 0]\<close> and \<^verbatim>\<open>df.iloc[:, 0]\<close>: the values of the first column.\<close>

definition df_iloc_col0 :: "'a data_frame \<Rightarrow> int list \<Rightarrow> error + 'a list" where
  "df_iloc_col0 df idxs =
     (case df_columns df of
        [] \<Rightarrow> Inl iloc_error
      | c # _ \<Rightarrow>
          (let n = index_len (df_index df) in
           if iloc_ok n idxs then Inr (map (\<lambda>i. snd c ! iloc_pos n i) idxs) else Inl iloc_error))"

definition df_col0 :: "'a data_frame \<Rightarrow> error + 'a list" where
  "df_col0 df = (case df_columns df of [] \<Rightarrow> Inl iloc_error | c # _ \<Rightarrow> Inr (snd c))"

text \<open>
  \<^verbatim>\<open>df.to_numpy()\<close>: shape (rows, columns), row-major, so the cells of one row lie side
  by side.
\<close>

definition df_to_numpy :: "'a data_frame \<Rightarrow> 'a ndarray" where
  "df_to_numpy df =
     (let n = index_len (df_index df) in
      \<lparr>nd_shape = [int n, int (length (df_columns df))],
       nd_data = concat (map (\<lambda>i. map (\<lambda>c. snd c ! i) (df_columns df)) [0..<n])\<rparr>)"


section \<open>Ingest: \<^verbatim>\<open>omx_hdf5_2_to_arrow\<close>\<close>

text \<open>
  The OMX source is an external collaborator: an open file offers its declared shape
  (\<^verbatim>\<open>omx_file.shape()\<close>) and the nodes under \<^verbatim>\<open>/data\<close>, each a named array. The source
  argument is a path, an open file, or a preloaded frame (with the default row label;
  \<^verbatim>\<open>pa.table\<close> then keeps exactly the frame's columns and records the frame in one
  metadata entry, \<^verbatim>\<open>b'pandas'\<close>, whose JSON text is the parameter \<open>pandas_meta\<close>).
\<close>

record 'a omx_file =
  omx_shape :: "int list"
  omx_data :: "(string \<times> 'a ndarray) list"

datatype 'a omx_source = Path string | OmxFile "'a omx_file" | Preloaded "'a data_frame"

definition OMX_VERSION :: string where
  "OMX_VERSION = ''0.3.0a''"

text \<open>A dictionary built by inserting the pairs in order: a repeated key keeps its place
  and takes the later value.\<close>

definition dict_of :: "('k \<times> 'v) list \<Rightarrow> ('k \<times> 'v) list" where
  "dict_of kvs = foldl (\<lambda>d kv. AList.update (fst kv) (snd kv) d) [] kvs"

definition DataFrame_from_dict :: "(string \<times> 'a list) list \<Rightarrow> error + 'a data_frame" where
  "DataFrame_from_dict d =
     (if same_lengths (map snd d)
      then Inr \<lparr>df_index = RangeIndex (case d of [] \<Rightarrow> 0 | c # _ \<Rightarrow> length (snd c)),
                df_columns = d\<rparr>
      else Inl (ValueError ''All arrays must be of the same length''))"

definition pa_table :: "('a data_frame \<Rightarrow> string) \<Rightarrow> 'a data_frame \<Rightarrow> 'a arrow_table" where
  "pa_table pandas_meta df =
     \<lparr>t_columns = df_columns df, t_num_rows = index_len (df_index df),
      t_metadata = Some [(''pandas'', pandas_meta df)]\<rparr>"

definition ingest_frame ::
  "'a omx_source \<Rightarrow> int list option \<Rightarrow> error + ('a data_frame \<times> int list)" where
  "ingest_frame omx_file shp =
     (case omx_file of
        Preloaded df \<Rightarrow>
          (case shp of
             None \<Rightarrow> Inl (MissingShapeError ''when using preloaded dataframe, must give shape'')
           | Some s \<Rightarrow> Inr (df, s))
      | OmxFile f \<Rightarrow>
          (case DataFrame_from_dict
                  (dict_of (map (\<lambda>node. (fst node, reshape_flat (snd node))) (omx_data f))) of
             Inl e \<Rightarrow> Inl e
           | Inr df \<Rightarrow> Inr (df, omx_shape f))
      | Path p \<Rightarrow> Inl (AssertionError []))"

definition omx_hdf5_2_to_arrow ::
  "(string \<Rightarrow> error + 'a omx_file) \<Rightarrow> ('a data_frame \<Rightarrow> string) \<Rightarrow> 'a omx_source \<Rightarrow>
     int list option \<Rightarrow> error + 'a arrow_table" where
  "omx_hdf5_2_to_arrow open_file pandas_meta omx_file shp =
     (case (case omx_file of
              Path p \<Rightarrow> (case open_file p of Inl e \<Rightarrow> Inl e | Inr f \<Rightarrow> Inr (OmxFile f))
            | _ \<Rightarrow> Inr omx_file) of
        Inl e \<Rightarrow> Inl e
      | Inr src \<Rightarrow>
          (case ingest_frame src shp of
             Inl e \<Rightarrow> Inl e
           | Inr (df, shp') \<Rightarrow>
               (let table = pa_table pandas_meta df in
                case t_metadata table of
                  None \<Rightarrow> Inl (TypeError ''NoneType object does not support item assignment'')
                | Some metadata \<Rightarrow>
                    Inr (table\<lparr>t_metadata :=
                           Some (AList.update ''SHAPE'' (str_tuple shp')
                                   (AList.update ''OMX_VERSION'' OMX_VERSION metadata))\<rparr>))))"

section \<open>The two backends\<close>

text \<open>
  Files are kept by name; a file holds the table that was written and remembers which
  format wrote it (a Feather file is not readable as Parquet and the other way round).
  Writing keeps columns and schema metadata; the \<^verbatim>\<open>chunksize\<close> that
  \<^verbatim>\<open>FeatherMatrix._write_arrow_table\<close> derives from the shape changes the layout of the
  file only.
\<close>

datatype backend = Feather | Parquet

type_synonym 'a files = "string \<Rightarrow> (backend \<times> 'a arrow_table) option"

record 'a arrow_matrix = matrix_base +
  m_backend :: backend
  m_column_defs :: "string list"
  m_table :: "'a arrow_table"

definition check_write_file :: "'a files \<Rightarrow> string \<Rightarrow> bool \<Rightarrow> error + unit" where
  "check_write_file fs filename overwrite =
     (if fs filename \<noteq> None \<and> \<not> overwrite then Inl (FileExistsError filename) else Inr ())"

definition write_arrow_table ::
  "backend \<Rightarrow> 'a files \<Rightarrow> string \<Rightarrow> 'a arrow_table \<Rightarrow> int list option \<Rightarrow> 'a files" where
  "write_arrow_table cls fs filename table shp = fs(filename \<mapsto> (cls, table))"

definition open_stored :: "'a files \<Rightarrow> backend \<Rightarrow> string \<Rightarrow> error + 'a arrow_table" where
  "open_stored fs cls filename =
     (case fs filename of
        None \<Rightarrow> Inl (IOError filename)
      | Some stored \<Rightarrow> if fst stored = cls then Inr (snd stored) else Inl (IOError filename))"

text \<open>\<^verbatim>\<open>schema.metadata[key]\<close>: \<^verbatim>\<open>TypeError\<close> when the schema has no metadata at all,
  \<^verbatim>\<open>KeyError\<close> when the key is missing.\<close>

definition metadata_get :: "(string \<times> string) list option \<Rightarrow> string \<Rightarrow> error + string" where
  "metadata_get md key =
     (case md of
        None \<Rightarrow> Inl (TypeError ''NoneType object is not subscriptable'')
      | Some d \<Rightarrow> (case map_of d key of None \<Rightarrow> Inl (KeyError key) | Some v \<Rightarrow> Inr v))"

text \<open>\<^verbatim>\<open>AbstractArrowMatrix.__init__\<close>: an integer shape becomes a one-element tuple.\<close>

definition init_shape :: "literal option \<Rightarrow> int list option" where
  "init_shape shp =
     (case shp of None \<Rightarrow> None | Some (LInt i) \<Rightarrow> Some [i] | Some (LTuple t) \<Rightarrow> Some t)"

definition FeatherMatrix_init :: "'a files \<Rightarrow> string \<Rightarrow> error + 'a arrow_matrix" where
  "FeatherMatrix_init fs filename =
     (case open_stored fs Feather filename of
        Inl e \<Rightarrow> Inl e
      | Inr stored \<Rightarrow>
          (case metadata_get (t_metadata stored) ''OMX_VERSION'' of
             Inl e \<Rightarrow> Inl e
           | Inr omx_version \<Rightarrow>
               (case metadata_get (t_metadata stored) ''SHAPE'' of
                  Inl e \<Rightarrow> Inl e
                | Inr shape_text \<Rightarrow>
                    (case literal_eval shape_text of
                       Inl e \<Rightarrow> Inl e
                     | Inr shp \<Rightarrow>
                         Inr \<lparr>m_filename = filename, m_omx_version = Some omx_version,
                              m_shape = init_shape (Some shp), m_backend = Feather,
                              m_column_defs = map fst (t_columns stored),
                              m_table = stored\<rparr>))))"

text \<open>
  \<^verbatim>\<open>ParquetMatrix.__init__\<close> takes \<^verbatim>\<open>omx_version\<close> and \<^verbatim>\<open>shape\<close> arguments and overwrites both
  from the metadata before using them. It warns (and goes on) when the product of the
  shape is not the number of rows; the warning is not part of the result.
\<close>

definition ParquetMatrix_init ::
  "'a files \<Rightarrow> string \<Rightarrow> string option \<Rightarrow> int list option \<Rightarrow> error + 'a arrow_matrix" where
  "ParquetMatrix_init fs filename omx_version shp =
     (case open_stored fs Parquet filename of
        Inl e \<Rightarrow> Inl e
      | Inr stored \<Rightarrow>
          (case metadata_get (t_metadata stored) ''SHAPE'' of
             Inl e \<Rightarrow> Inl e
           | Inr shape_text \<Rightarrow>
               (case literal_eval shape_text of
                  Inl e \<Rightarrow> Inl e
                | Inr shp' \<Rightarrow>
                    (case metadata_get (t_metadata stored) ''OMX_VERSION'' of
                       Inl e \<Rightarrow> Inl e
                     | Inr omx_version' \<Rightarrow>
                         Inr \<lparr>m_filename = filename, m_omx_version = Some omx_version',
                              m_shape = init_shape (Some shp'), m_backend = Parquet,
                              m_column_defs = map fst (t_columns stored),
                              m_table = stored\<rparr>))))"

definition matrix_init :: "backend \<Rightarrow> 'a files \<Rightarrow> string \<Rightarrow> error + 'a arrow_matrix" where
  "matrix_init cls fs filename =
     (case cls of
        Feather \<Rightarrow> FeatherMatrix_init fs filename
      | Parquet \<Rightarrow> ParquetMatrix_init fs filename None None)"

definition from_hdf5 ::
  "backend \<Rightarrow> (string \<Rightarrow> error + 'a omx_file) \<Rightarrow> ('a data_frame \<Rightarrow> string) \<Rightarrow> 'a files \<Rightarrow>
     'a omx_source \<Rightarrow> string \<Rightarrow> bool \<Rightarrow> int list option \<Rightarrow> error + ('a files \<times> 'a arrow_matrix)" where
  "from_hdf5 cls open_file pandas_meta fs omx_file to_filename overwrite shp =
     (case check_write_file fs to_filename overwrite of
        Inl e \<Rightarrow> Inl e
      | Inr _ \<Rightarrow>
          (case omx_hdf5_2_to_arrow open_file pandas_meta omx_file shp of
             Inl e \<Rightarrow> Inl e
           | Inr table \<Rightarrow>
               (let fs' = write_arrow_table cls fs to_filename table shp in
                case matrix_init cls fs' to_filename of
                  Inl e \<Rightarrow> Inl e
                | Inr m \<Rightarrow> Inr (fs', m))))"

definition list_matrices :: "'a arrow_matrix \<Rightarrow> string list" where
  "list_matrices self =
     (case m_backend self of
        Feather \<Rightarrow> m_column_defs self
      | Parquet \<Rightarrow> map fst (t_columns (m_table self)))"

definition get_arrow_table :: "'a arrow_matrix \<Rightarrow> string list option \<Rightarrow> error + 'a arrow_table" where
  "get_arrow_table self names =
     (case m_backend self of
        Feather \<Rightarrow>
          (case names of None \<Rightarrow> Inr (m_table self) | Some ns \<Rightarrow> table_select (m_table self) ns)
      | Parquet \<Rightarrow>
          (case names of None \<Rightarrow> Inr (m_table self) | Some ns \<Rightarrow> Inr (parquet_read (m_table self) ns)))"

definition get_matrix :: "'a arrow_matrix \<Rightarrow> string \<Rightarrow> error + 'a ndarray" where
  "get_matrix self name =
     (case get_arrow_table self (Some [name]) of
        Inl e \<Rightarrow> Inl e
      | Inr t \<Rightarrow>
          (case shape self of
             Inl e \<Rightarrow> Inl e
           | Inr shp \<Rightarrow> np_reshape (df_to_numpy (to_pandas t)) shp))"


section \<open>Row-gather engine\<close>

text \<open>
  The \<^verbatim>\<open>names\<close> argument is a single name, a list of names, or (in \<^verbatim>\<open>__getitem__\<close>) a
  slice. \<^verbatim>\<open>_get_rc_by_takers\<close> returns a series on the single-name path and a frame
  otherwise. Methods 2 and 3 write every gathered column into an array created with
  \<^verbatim>\<open>np.zeros(..., dtype=dtype)\<close>; the conversion of one stored value to that dtype is the
  parameter \<open>astype\<close>. Methods 1 and 4 and the single-name path do not use \<^verbatim>\<open>dtype\<close>.
\<close>

record py_slice =
  sl_start :: "int option"
  sl_stop :: "int option"
  sl_step :: "int option"

datatype names_sel = NStr string | NList "string list" | NSlice py_slice

datatype 'a gathered = GSeries "'a series" | GFrame "'a data_frame"

definition gather_method2 ::
  "('a \<Rightarrow> 'a) \<Rightarrow> 'a arrow_matrix \<Rightarrow> int list \<Rightarrow> string \<Rightarrow> error + (string \<times> 'a list)" where
  "gather_method2 astype self tk name =
     (case get_arrow_table self (Some [name]) of
        Inl e \<Rightarrow> Inl e
      | Inr t \<Rightarrow>
          (case df_iloc_col0 (to_pandas t) tk of
             Inl e \<Rightarrow> Inl e
           | Inr v \<Rightarrow> Inr (name, map astype v)))"

definition gather_method3 ::
  "('a \<Rightarrow> 'a) \<Rightarrow> 'a arrow_matrix \<Rightarrow> int list \<Rightarrow> string \<Rightarrow> error + (string \<times> 'a list)" where
  "gather_method3 astype self tk name =
     (case get_arrow_table self (Some [name]) of
        Inl e \<Rightarrow> Inl e
      | Inr t \<Rightarrow>
          (case table_take t tk of
             Inl e \<Rightarrow> Inl e
           | Inr t' \<Rightarrow>
               (case df_col0 (to_pandas t') of
                  Inl e \<Rightarrow> Inl e
                | Inr v \<Rightarrow> Inr (name, map astype v))))"

definition frame_of_columns :: "nat \<Rightarrow> (string \<times> 'a list) list \<Rightarrow> 'a data_frame" where
  "frame_of_columns n cols = \<lparr>df_index = RangeIndex n, df_columns = cols\<rparr>"

definition get_rc_by_takers ::
  "('a \<Rightarrow> 'a) \<Rightarrow> 'a arrow_matrix \<Rightarrow> names_sel \<Rightarrow> int list \<Rightarrow> int \<Rightarrow> error + 'a gathered" where
  "get_rc_by_takers astype self names tk meth =
     (case names of
        NStr name \<Rightarrow>
          (case get_arrow_table self (Some [name]) of
             Inl e \<Rightarrow> Inl e
           | Inr t \<Rightarrow>
               (case table_take t tk of
                  Inl e \<Rightarrow> Inl e
                | Inr t' \<Rightarrow>
                    (case column0_to_pandas t' of Inl e \<Rightarrow> Inl e | Inr s \<Rightarrow> Inr (GSeries s))))
      | NList ns \<Rightarrow>
          if meth = 1 then
            (case get_arrow_table self (Some ns) of
               Inl e \<Rightarrow> Inl e
             | Inr t \<Rightarrow>
                 (case df_iloc (to_pandas t) tk of Inl e \<Rightarrow> Inl e | Inr df \<Rightarrow> Inr (GFrame df)))
          else if meth = 2 then
            (case collect (map (gather_method2 astype self tk) ns) of
               Inl e \<Rightarrow> Inl e
             | Inr cols \<Rightarrow> Inr (GFrame (frame_of_columns (length tk) cols)))
          else if meth = 3 then
            (case collect (map (gather_method3 astype self tk) ns) of
               Inl e \<Rightarrow> Inl e
             | Inr cols \<Rightarrow> Inr (GFrame (frame_of_columns (length tk) cols)))
          else if meth = 4 then
            (case get_arrow_table self (Some ns) of
               Inl e \<Rightarrow> Inl e
             | Inr t \<Rightarrow>
                 (case table_take t tk of
                    Inl e \<Rightarrow> Inl e
                  | Inr t' \<Rightarrow> Inr (GFrame (to_pandas t'))))
          else Inl (ValueError (''undefined method '' @ str_int meth))
      | NSlice sl \<Rightarrow>
          if meth = 1 \<or> meth = 2 \<or> meth = 3 \<or> meth = 4
          then Inl (TypeError ''slice is not a collection of names'')
          else Inl (ValueError (''undefined method '' @ str_int meth)))"

definition gathered_rows :: "'a gathered \<Rightarrow> nat" where
  "gathered_rows g =
     (case g of GSeries s \<Rightarrow> index_len (s_index s) | GFrame df \<Rightarrow> index_len (df_index df))"

definition set_index :: "'a gathered \<Rightarrow> pd_index \<Rightarrow> error + 'a gathered" where
  "set_index g ix =
     (if index_len ix \<noteq> gathered_rows g then Inl (ValueError ''Length mismatch'')
      else Inr (case g of
                  GSeries s \<Rightarrow> GSeries (s\<lparr>s_index := ix\<rparr>)
                | GFrame df \<Rightarrow> GFrame (df\<lparr>df_index := ix\<rparr>)))"

definition reset_index :: "'a gathered \<Rightarrow> 'a gathered" where
  "reset_index g =
     (case g of
        GSeries s \<Rightarrow> GSeries (s\<lparr>s_index := RangeIndex (index_len (s_index s))\<rparr>)
      | GFrame df \<Rightarrow> GFrame (df\<lparr>df_index := RangeIndex (index_len (df_index df))\<rparr>))"

definition get_rc ::
  "('a \<Rightarrow> 'a) \<Rightarrow> 'a arrow_matrix \<Rightarrow> names_sel \<Rightarrow> index_arg list \<Rightarrow> int \<Rightarrow> bool \<Rightarrow>
     error + 'a gathered" where
  "get_rc astype self names indexes meth attach_index =
     (case takers self indexes attach_index of
        Inl e \<Rightarrow> Inl e
      | Inr (tk, idx) \<Rightarrow>
          (case get_rc_by_takers astype self names tk meth of
             Inl e \<Rightarrow> Inl e
           | Inr result \<Rightarrow>
               (case idx of
                  None \<Rightarrow> Inr (reset_index result)
                | Some mi \<Rightarrow> set_index result (MultiIndex mi))))"

section \<open>Slice materializer\<close>

text \<open>
  \<^verbatim>\<open>_cap(a, b)\<close>, \<^verbatim>\<open>x or d\<close> on an optional integer (both \<^verbatim>\<open>None\<close> and \<open>0\<close> are falsy),
  \<^verbatim>\<open>_slice_to_range\<close> and \<^verbatim>\<open>_take_array\<close>. A dimension selector is an integer, a slice or a
  one-dimensional integer array.
\<close>

datatype dim_sel = DInt int | DSlice py_slice | DArr "int list"

definition cap :: "int option \<Rightarrow> int option \<Rightarrow> int option" where
  "cap a b =
     (case a of
        None \<Rightarrow> b
      | Some x \<Rightarrow> (case b of None \<Rightarrow> Some x | Some y \<Rightarrow> Some (min x y)))"

definition py_or :: "int option \<Rightarrow> int \<Rightarrow> int" where
  "py_or x d = (case x of None \<Rightarrow> d | Some v \<Rightarrow> if v = 0 then d else v)"

definition slice_to_range :: "dim_sel \<Rightarrow> int \<Rightarrow> int list" where
  "slice_to_range s dim_size =
     (case s of
        DSlice sl \<Rightarrow>
          np_arange (py_or (sl_start sl) 0) (cap (sl_stop sl) (Some dim_size)) (py_or (sl_step sl) 1)
      | DArr xs \<Rightarrow> xs
      | DInt i \<Rightarrow> [i])"

definition index_error :: error where
  "index_error = IndexError ''tuple index out of range''"

definition take_array :: "dim_sel \<Rightarrow> dim_sel \<Rightarrow> int list \<Rightarrow> error + (int list \<times> (nat \<times> nat))" where
  "take_array slice1 slice2 shp =
     (case shp of
        d0 # d1 # _ \<Rightarrow>
          (let combined = np_add_outer (grid_scale (reshape_column (slice_to_range slice1 d0)) d1)
                            (slice_to_range slice2 d1)
           in Inr (g_data combined, g_shape combined))
      | _ \<Rightarrow> Inl index_error)"

text \<open>
  \<^verbatim>\<open>__getitem__\<close> on a tuple \<^verbatim>\<open>item = (names, sel1, sel2, ...)\<close>. The statements are taken in
  the order of the source: padding with \<^verbatim>\<open>slice(None)\<close>, wrapping a single name,
  \<^verbatim>\<open>len(names)\<close>, the test for a slice, the two selectors, the gather, and the reshaping
  or labelling of the result.
\<close>

definition py_len :: "names_sel \<Rightarrow> error + nat" where
  "py_len names =
     (case names of
        NStr s \<Rightarrow> Inr (length s)
      | NList ns \<Rightarrow> Inr (length ns)
      | NSlice sl \<Rightarrow> Inl (TypeError ''object of type slice has no len()''))"

definition int_to_slice :: "dim_sel \<Rightarrow> dim_sel" where
  "int_to_slice s =
     (case s of
        DInt i \<Rightarrow> DSlice \<lparr>sl_start = Some i, sl_stop = Some (i + 1), sl_step = None\<rparr>
      | _ \<Rightarrow> s)"

definition slice_None :: dim_sel where
  "slice_None = DSlice \<lparr>sl_start = None, sl_stop = None, sl_step = None\<rparr>"

datatype 'a item_result = Dense "'a ndarray" | Labelled "'a gathered"

definition gathered_to_numpy :: "'a gathered \<Rightarrow> 'a ndarray" where
  "gathered_to_numpy g =
     (case g of
        GSeries s \<Rightarrow> \<lparr>nd_shape = [int (length (s_values s))], nd_data = s_values s\<rparr>
      | GFrame df \<Rightarrow> df_to_numpy df)"

definition getitem ::
  "('a \<Rightarrow> 'a) \<Rightarrow> 'a arrow_matrix \<Rightarrow> names_sel \<times> dim_sel list \<Rightarrow> error + 'a item_result" where
  "getitem astype self item =
     (case shape self of
        Inl e \<Rightarrow> Inl e
      | Inr shp \<Rightarrow>
          (let dims = length shp;
               sels = snd item @ replicate (dims - length (snd item)) slice_None;
               names = (case fst item of NStr s \<Rightarrow> NList [s] | other \<Rightarrow> other)
           in case py_len names of
                Inl e \<Rightarrow> Inl e
              | Inr n \<Rightarrow>
                  (let add_multiindex = (n > 1);
                       names' = (case names of
                                   NSlice sl \<Rightarrow>
                                     if sl_start sl = None then NList (list_matrices self) else names
                                 | other \<Rightarrow> other)
                   in case sels of
                        s1 # s2 # _ \<Rightarrow>
                          (let slice1 = int_to_slice s1; slice2 = int_to_slice s2
                           in case take_array slice1 slice2 shp of
                                Inl e \<Rightarrow> Inl e
                              | Inr (tk, takers_shape) \<Rightarrow>
                                  (case get_rc_by_takers astype self names' tk 4 of
                                     Inl e \<Rightarrow> Inl e
                                   | Inr result \<Rightarrow>
                                       if add_multiindex
                                       then
                                         (case np_broadcast_to
                                                 (reshape_column (slice_to_range slice1 (shp ! 0)))
                                                 takers_shape of
                                            Inl e \<Rightarrow> Inl e
                                          | Inr idx1 \<Rightarrow>
                                              (case np_broadcast_to
                                                      (as_row (slice_to_range slice2 (shp ! 1)))
                                                      takers_shape of
                                                 Inl e \<Rightarrow> Inl e
                                               | Inr idx2 \<Rightarrow>
                                                   (case MultiIndex_from_arrays
                                                           [g_data idx1, g_data idx2] [None, None] of
                                                      Inl e \<Rightarrow> Inl e
                                                    | Inr mi \<Rightarrow>
                                                        (case set_index result (MultiIndex mi) of
                                                           Inl e \<Rightarrow> Inl e
                                                         | Inr r \<Rightarrow> Inr (Labelled r)))))
                                       else
                                         (case np_reshape (gathered_to_numpy result)
                                                 [int (fst takers_shape), int (snd takers_shape)] of
                                            Inl e \<Rightarrow> Inl e
                                          | Inr a \<Rightarrow> Inr (Dense a))))
                      | _ \<Rightarrow> Inl index_error)))"


section \<open>Reference definitions and example data\<close>




text \<open>
  The table that the ingest hands to the writer: the columns of the frame and three
  metadata entries, the one pyarrow writes for pandas and the two of the format.
\<close>

definition ingested_table :: "('a data_frame \<Rightarrow> string) \<Rightarrow> 'a data_frame \<Rightarrow> int list \<Rightarrow> 'a arrow_table" where
  "ingested_table pandas_meta df shp =
     \<lparr>t_columns = df_columns df, t_num_rows = index_len (df_index df),
      t_metadata = Some [(''pandas'', pandas_meta df), (''OMX_VERSION'', ''0.3.0a''),
                         (''SHAPE'', str_tuple shp)]\<rparr>"

text \<open>The columns that an open OMX file contributes: every \<^verbatim>\<open>/data\<close> node, flattened.\<close>

definition flat_columns :: "'a omx_file \<Rightarrow> (string \<times> 'a list) list" where
  "flat_columns f = map (\<lambda>node. (fst node, reshape_flat (snd node))) (omx_data f)"

text \<open>A small source file used in the examples: two 2 by 3 matrices.\<close>

definition tiny_skims :: "int omx_file" where
  "tiny_skims =
     \<lparr>omx_shape = [2, 3],
      omx_data = [(''DIST'', \<lparr>nd_shape = [2, 3], nd_data = [1, 2, 3, 4, 5, 6]\<rparr>),
                  (''TIME'', \<lparr>nd_shape = [2, 3], nd_data = [10, 20, 30, 40, 50, 60]\<rparr>)]\<rparr>"

text \<open>A stored table whose schema metadata has the version entry and no \<^verbatim>\<open>SHAPE\<close> entry.\<close>

definition no_shape_table :: "int arrow_table" where
  "no_shape_table =
     \<lparr>t_columns = [(''DIST'', [1, 2, 3, 4])], t_num_rows = 4,
      t_metadata = Some [(''pandas'', ''{}''), (''OMX_VERSION'', ''0.3.0a'')]\<rparr>"

text \<open>The matrix object that \<^verbatim>\<open>FeatherMatrix.from_hdf5\<close> returns for the small source file.\<close>

definition tiny_matrix :: "int arrow_matrix" where
  "tiny_matrix =
     \<lparr>m_filename = ''skims.feathermatrix'', m_omx_version = Some ''0.3.0a'', m_shape = Some [2, 3],
      m_backend = Feather, m_column_defs = [''DIST'', ''TIME''],
      m_table = ingested_table (\<lambda>df. ''{}'') \<lparr>df_index = RangeIndex 6, df_columns = flat_columns tiny_skims\<rparr> [2, 3]\<rparr>"

text \<open>
  The column stored under a name, and what a gather of the names \<open>ks\<close> at the offsets
  \<open>tk\<close> is expected to hold: for every name, in the order asked, the cells of its column
  at the offsets, in the order asked.
\<close>

definition column_of :: "(string \<times> 'a list) list \<Rightarrow> string \<Rightarrow> 'a list" where
  "column_of cols k = (case map_of cols k of None \<Rightarrow> [] | Some v \<Rightarrow> v)"

definition gathered_columns :: "(string \<times> 'a list) list \<Rightarrow> string list \<Rightarrow> int list \<Rightarrow> (string \<times> 'a list) list" where
  "gathered_columns cols ks tk = map (\<lambda>k. (k, map (\<lambda>t. column_of cols k ! nat t) tk)) ks"

text \<open>
  The coordinate pairs of a rectangular block, row by row: the broadcast grid of two
  ranges, flattened row-major.
\<close>

definition grid_pairs :: "int list \<Rightarrow> int list \<Rightarrow> (int \<times> int) list" where
  "grid_pairs r0 r1 = concat (map (\<lambda>i. map (\<lambda>j. (i, j)) r1) r0)"

text \<open>
  The selectors of \<^verbatim>\<open>__getitem__\<close> after the padding loop
  \<^verbatim>\<open>while len(item) < dims+1: item = item + (slice(None),)\<close>.
\<close>

definition padded_selectors :: "dim_sel list \<Rightarrow> nat \<Rightarrow> dim_sel list" where
  "padded_selectors sels dims = sels @ replicate (dims - length sels) slice_None"



section \<open>Properties\<close>

subsection \<open>Properties of the coordinate index mapper\<close>






lemma same_lengths_all: "(\<forall>a\<in>set xs. length a = L) \<Longrightarrow> same_lengths xs"
  by (induction xs rule: same_lengths.induct) auto





lemma shape_Some: "m_shape self = Some shp \<Longrightarrow> shape self = Inr shp"
  by (simp add: shape_def)











text \<open>
  C4 (dimension mismatch). Whenever the matrix has a dimensionality \<open>nd\<close> (its shape is
  known) and the number of index arguments differs from \<open>nd\<close>, \<^verbatim>\<open>_takers\<close> fails with the
  \<^verbatim>\<open>ValueError\<close> of its arity check, whatever the arguments and the \<^verbatim>\<open>attach_index\<close>
  flag are, and so does \<^verbatim>\<open>get_rc\<close>, which calls it first. This \<^verbatim>\<open>ValueError\<close> is the
  error the specification calls DimensionMismatchError.
\<close>

theorem takers_dimension_mismatch:
  assumes "ndims self = Inr nd" and "length indexes \<noteq> nd"
  shows "takers self indexes attach_index =
           Inl (ValueError (''number of indexes ('' @ str_int (int (length indexes))
                  @ '') does not match ndims ('' @ str_int (int nd) @ '')''))
       \<and> get_rc astype self names indexes meth attach_index =
           Inl (ValueError (''number of indexes ('' @ str_int (int (length indexes))
                  @ '') does not match ndims ('' @ str_int (int nd) @ '')''))"
  using assms by (simp add: takers_def get_rc_def)

text \<open>C4 at one index argument for a 25 by 25 matrix.\<close>

theorem takers_dimension_mismatch_witness:
  "takers \<lparr>m_filename = ''skims.feathermatrix'', m_omx_version = Some ''0.3.0a'',
            m_shape = Some [25, 25], m_backend = Feather, m_column_defs = [''A''],
            m_table = \<lparr>t_columns = [(''A'', [0 :: int])], t_num_rows = 1, t_metadata = None\<rparr>\<rparr>
          [Seq [1, 2, 3]] False =
     Inl (ValueError ''number of indexes (1) does not match ndims (2)'')
   \<and> get_rc (\<lambda>v. v) \<lparr>m_filename = ''skims.feathermatrix'', m_omx_version = Some ''0.3.0a'',
            m_shape = Some [25, 25], m_backend = Feather, m_column_defs = [''A''],
            m_table = \<lparr>t_columns = [(''A'', [0 :: int])], t_num_rows = 1, t_metadata = None\<rparr>\<rparr>
          (NStr ''A'') [Seq [1, 2, 3]] 4 False =
     Inl (ValueError ''number of indexes (1) does not match ndims (2)'')"
proof -
  let ?m = "\<lparr>m_filename = ''skims.feathermatrix'', m_omx_version = Some ''0.3.0a'',
             m_shape = Some [25, 25], m_backend = Feather, m_column_defs = [''A''],
             m_table = \<lparr>t_columns = [(''A'', [0 :: int])], t_num_rows = 1, t_metadata = None\<rparr>\<rparr>"
  have nd: "ndims ?m = Inr 2" by (simp add: ndims_def shape_def)
  have ne: "length [Seq [1, 2, 3]] \<noteq> (2::nat)" by simp
  have s1: "str_int (int (length [Seq [1, 2, 3]])) = ''1''"
    by (simp add: str_int_def str_nat.simps digit_char_def)
  have s2: "str_int (int 2) = ''2''"
    by (simp add: str_int_def str_nat.simps digit_char_def)
  show ?thesis
    using takers_dimension_mismatch [OF nd ne, where attach_index = False and astype = "\<lambda>v. v"
        and names = "NStr ''A''" and meth = 4]
    by (simp only: s1 s2) simp
qed

subsection \<open>Shape text: \<^verbatim>\<open>literal_eval (str shape) = shape\<close>\<close>

lemma digits_upt: "[0..<10] = [0, 1, 2, 3, 4, 5, 6, 7, 8, 9 :: nat]"
  by (simp add: upt_rec)

lemma lt10_cases: "d < (10::nat) \<Longrightarrow> d = 0 \<or> d = 1 \<or> d = 2 \<or> d = 3 \<or> d = 4 \<or> d = 5 \<or> d = 6 \<or> d = 7 \<or> d = 8 \<or> d = 9"
  by arith

lemma digit_val_digit_char: "d < 10 \<Longrightarrow> digit_val (digit_char d) = Some d"
  using lt10_cases [of d] by (auto simp: digit_val_def digit_char_def digits_upt)

lemma digit_char_in: "d < 10 \<Longrightarrow> digit_char d \<in> set ''0123456789''"
  using lt10_cases [of d] by (auto simp: digit_char_def)

lemma digit_char_nonzero: "0 < d \<Longrightarrow> d < 10 \<Longrightarrow> digit_char d \<noteq> CHR ''0''"
  using lt10_cases [of d] by (auto simp: digit_char_def)

lemma str_nat_digits: "set (str_nat n) \<subseteq> set ''0123456789''"
proof (induction n rule: str_nat.induct)
  case (1 n)
  show ?case
  proof (cases "n < 10")
    case True
    then show ?thesis using digit_char_in [of n] by (subst str_nat.simps) simp
  next
    case False
    have "n mod 10 < 10" by simp
    then show ?thesis using False 1 digit_char_in [of "n mod 10"] by (subst str_nat.simps) simp
  qed
qed

lemma str_nat_nonempty: "str_nat n \<noteq> []"
  by (subst str_nat.simps) simp

lemma str_nat_hd: "0 < n \<Longrightarrow> hd (str_nat n) \<noteq> CHR ''0''"
proof (induction n rule: str_nat.induct)
  case (1 n)
  show ?case
  proof (cases "n < 10")
    case True
    then show ?thesis using digit_char_nonzero [of n] "1.prems" by (subst str_nat.simps) simp
  next
    case False
    then have "0 < n div 10" by simp
    then have "hd (str_nat (n div 10)) \<noteq> CHR ''0''" using 1 False by simp
    then show ?thesis using False str_nat_nonempty [of "n div 10"] by (subst str_nat.simps) simp
  qed
qed

lemma parse_digits_snoc:
  "parse_digits acc (xs @ [c]) =
     (case parse_digits acc xs of None \<Rightarrow> None
      | Some a \<Rightarrow> (case digit_val c of None \<Rightarrow> None | Some d \<Rightarrow> Some (10 * a + d)))"
  by (induction xs arbitrary: acc) (auto split: option.splits)

lemma parse_digits_str_nat: "parse_digits 0 (str_nat n) = Some n"
proof (induction n rule: str_nat.induct)
  case (1 n)
  show ?case
  proof (cases "n < 10")
    case True
    then show ?thesis by (subst str_nat.simps) (simp add: digit_val_digit_char)
  next
    case False
    have m: "n mod 10 < 10" by simp
    have "parse_digits 0 (str_nat (n div 10)) = Some (n div 10)" using 1 False by simp
    then show ?thesis using False
      by (subst str_nat.simps) (simp add: parse_digits_snoc digit_val_digit_char [OF m])
  qed
qed

lemma parse_nat_str_nat: "parse_nat (str_nat n) = Some n"
proof (cases "n = 0")
  case True
  have "str_nat 0 = ''0''" by (subst str_nat.simps) (simp add: digit_char_def)
  then show ?thesis using True parse_digits_str_nat [of 0] by (simp add: parse_nat_def)
next
  case False
  then have "hd (str_nat n) \<noteq> CHR ''0''" using str_nat_hd by simp
  then show ?thesis using str_nat_nonempty [of n] parse_digits_str_nat [of n]
    by (simp add: parse_nat_def)
qed

lemma str_nat_no_char:
  assumes "c \<notin> set ''0123456789''"
  shows "c \<notin> set (str_nat n)"
  using assms str_nat_digits [of n] by blast

lemma parse_int_str_int: "parse_int (str_int i) = Some i"
proof (cases "i < 0")
  case True
  then show ?thesis by (simp add: str_int_def parse_int_def parse_nat_str_nat)
next
  case False
  obtain c r where cr: "str_nat (nat i) = c # r" using str_nat_nonempty [of "nat i"] by (cases "str_nat (nat i)") auto
  have "CHR ''-'' \<notin> set (str_nat (nat i))" by (rule str_nat_no_char) simp
  then have "c \<noteq> CHR ''-''" using cr by auto
  then show ?thesis using False cr parse_nat_str_nat [of "nat i"]
    by (simp add: str_int_def parse_int_def)
qed

lemma str_int_nonempty: "str_int i \<noteq> []"
  by (simp add: str_int_def str_nat_nonempty)

lemma str_int_no_comma: "CHR '','' \<notin> set (str_int i)"
proof -
  have "CHR '','' \<notin> set (str_nat n)" for n by (rule str_nat_no_char) simp
  then show ?thesis by (simp add: str_int_def)
qed

lemma split_on_plain: "c \<notin> set w \<Longrightarrow> split_on c w = [w]"
  by (induction w) auto

lemma split_on_append: "c \<notin> set w \<Longrightarrow> split_on c (w @ c # r) = w # split_on c r"
  by (induction w) auto

lemma split_join:
  "split_on CHR '','' (join '', '' (map str_int (x # xs))) = str_int x # map (\<lambda>i. CHR '' '' # str_int i) xs"
proof (induction xs arbitrary: x)
  case Nil
  show ?case using split_on_plain [OF str_int_no_comma] by simp
next
  case (Cons y ys)
  have "join '', '' (map str_int (x # y # ys)) = str_int x @ CHR '','' # (CHR '' '' # join '', '' (map str_int (y # ys)))"
    by simp
  then have "split_on CHR '','' (join '', '' (map str_int (x # y # ys)))
      = str_int x # split_on CHR '','' (CHR '' '' # join '', '' (map str_int (y # ys)))"
    using split_on_append [OF str_int_no_comma] by simp
  also have "split_on CHR '','' (CHR '' '' # join '', '' (map str_int (y # ys)))
      = (CHR '' '' # str_int y) # map (\<lambda>i. CHR '' '' # str_int i) ys"
    using Cons.IH [of y] by simp
  finally show ?case by simp
qed

lemma those_parse_elems: "those (map parse_elem (map (\<lambda>i. CHR '' '' # str_int i) xs)) = Some xs"
  by (induction xs) (simp_all add: parse_elem_def parse_int_str_int)

lemma join_nonempty: "join sep (map str_int (x # xs)) \<noteq> []"
  by (cases xs) (simp_all add: str_int_nonempty)

lemma literal_eval_str_tuple: "literal_eval (str_tuple xs) = Inr (LTuple xs)"
proof (cases xs)
  case Nil
  then show ?thesis by (simp add: str_tuple_def literal_eval_def)
next
  case (Cons x rest)
  show ?thesis
  proof (cases rest)
    case Nil
    have sp: "split_on CHR '','' (str_int x @ '','') = [str_int x, []]"
      using split_on_append [OF str_int_no_comma, of x "[]"] by simp
    have bl: "butlast (str_int x @ '',)'') = str_int x @ '',''"
      by (simp add: butlast_append)
    show ?thesis using Cons Nil str_int_nonempty [of x]
      by (simp add: str_tuple_def literal_eval_def parse_items_def sp bl parse_int_str_int)
  next
    case (Cons y ys)
    let ?body = "join '', '' (map str_int xs)"
    have ne: "?body \<noteq> []" using \<open>xs = x # rest\<close> join_nonempty by simp
    have st: "str_tuple xs = CHR ''('' # (?body @ '')'')"
      using \<open>xs = x # rest\<close> Cons by (simp add: str_tuple_def)
    have r: "?body @ '')'' \<noteq> '')''" using ne by simp
    have bl: "butlast (?body @ '')'') = ?body" by (simp add: butlast_append)
    have sp: "split_on CHR '','' ?body = str_int x # (CHR '' '' # str_int y) # map (\<lambda>i. CHR '' '' # str_int i) ys"
      using split_join [of x rest] \<open>xs = x # rest\<close> Cons by simp
    have th: "those (parse_int (str_int x) # map parse_elem ((CHR '' '' # str_int y) # map (\<lambda>i. CHR '' '' # str_int i) ys)) = Some xs"
      using those_parse_elems [of "y # ys"] \<open>xs = x # rest\<close> Cons by (simp add: parse_int_str_int)
    have pi: "parse_items ?body = Inr (LTuple xs)"
      by (simp only: parse_items_def sp list.case th option.case) simp
    show ?thesis using r pi by (simp add: st literal_eval_def bl del: join.simps)
  qed
qed

subsection \<open>Ingest, write, open, read\<close>

lemma update_fresh: "k \<notin> fst ` set al \<Longrightarrow> AList.update k v al = al @ [(k, v)]"
  by (induction al) auto

lemma dict_of_fold:
  "distinct (map fst (d @ kvs)) \<Longrightarrow>
     foldl (\<lambda>d kv. AList.update (fst kv) (snd kv) d) d kvs = d @ kvs"
proof (induction kvs arbitrary: d)
  case Nil
  show ?case by simp
next
  case (Cons kv kvs)
  have fresh: "fst kv \<notin> fst ` set d" using Cons.prems by auto
  have "distinct (map fst ((d @ [kv]) @ kvs))" using Cons.prems by simp
  then have "foldl (\<lambda>d kv. AList.update (fst kv) (snd kv) d) (d @ [kv]) kvs = (d @ [kv]) @ kvs"
    by (rule Cons.IH)
  then show ?case using update_fresh [OF fresh, of "snd kv"] by simp
qed

lemma dict_of_distinct: "distinct (map fst kvs) \<Longrightarrow> dict_of kvs = kvs"
  using dict_of_fold [of "[]" kvs] by (simp add: dict_of_def)

lemma filter_unique:
  "distinct (map fst cols) \<Longrightarrow> (k, v) \<in> set cols \<Longrightarrow> filter (\<lambda>c. fst c = k) cols = [(k, v)]"
proof (induction cols)
  case Nil
  then show ?case by simp
next
  case (Cons c cols)
  show ?case
  proof (cases "fst c = k")
    case True
    then have "k \<notin> fst ` set cols" using Cons.prems(1) by auto
    then have none: "filter (\<lambda>c. fst c = k) cols = []" by (auto simp: filter_empty_conv)
    have "c = (k, v)" using Cons.prems True \<open>k \<notin> fst ` set cols\<close> by (cases c) force
    then show ?thesis using none by simp
  next
    case False
    then show ?thesis using Cons by auto
  qed
qed

lemma get_arrow_table_single:
  assumes "distinct (map fst (t_columns (m_table self)))" and "(k, v) \<in> set (t_columns (m_table self))"
  shows "get_arrow_table self (Some [k]) = Inr ((m_table self)\<lparr>t_columns := [(k, v)]\<rparr>)"
proof (cases "m_backend self")
  case Feather
  then show ?thesis
    by (simp add: get_arrow_table_def table_select_def field_by_name_def filter_unique [OF assms])
next
  case Parquet
  then show ?thesis
    by (simp add: get_arrow_table_def parquet_read_def first_occurrences_def filter_unique [OF assms])
qed

lemma np_reshape_same:
  assumes "\<forall>d\<in>set shp. 0 \<le> d" and "int (length (nd_data a)) = prod_list shp"
  shows "np_reshape a shp = Inr (a\<lparr>nd_shape := shp\<rparr>)"
proof -
  have f1: "filter (\<lambda>d. d < 0) shp = []" using assms(1) by (auto simp: filter_empty_conv)
  have f2: "filter (\<lambda>d. \<not> d < 0) shp = shp" using assms(1) by (auto simp: filter_id_conv)
  show ?thesis using assms(2) by (simp add: np_reshape_def Let_def f1 f2)
qed

lemma get_matrix_column:
  fixes self :: "'a arrow_matrix"
  assumes "distinct (map fst (t_columns (m_table self)))" and "(k, v) \<in> set (t_columns (m_table self))"
    and "m_shape self = Some shp" and "\<forall>d\<in>set shp. 0 \<le> d" and "int (length v) = prod_list shp"
    and "t_num_rows (m_table self) = length v"
  shows "get_matrix self k = Inr \<lparr>nd_shape = shp, nd_data = v\<rparr>"
proof -
  let ?t = "(m_table self)\<lparr>t_columns := [(k, v)]\<rparr>"
  have np: "df_to_numpy (to_pandas ?t) = \<lparr>nd_shape = [int (length v), 1], nd_data = v\<rparr>"
    by (simp add: df_to_numpy_def to_pandas_def assms(6) index_len_def Let_def map_nth)
  have "np_reshape \<lparr>nd_shape = [int (length v), 1], nd_data = v\<rparr> shp
          = Inr (\<lparr>nd_shape = [int (length v), 1], nd_data = v\<rparr>\<lparr>nd_shape := shp\<rparr>)"
    by (rule np_reshape_same) (use assms in simp_all)
  then show ?thesis
    by (simp add: get_matrix_def get_arrow_table_single [OF assms(1,2)] shape_Some [OF assms(3)] np)
qed


lemma matrix_init_written:
  "matrix_init cls (write_arrow_table cls fs fname (ingested_table pm df s) shp) fname =
     Inr \<lparr>m_filename = fname, m_omx_version = Some ''0.3.0a'', m_shape = Some s,
          m_backend = cls, m_column_defs = map fst (df_columns df),
          m_table = ingested_table pm df s\<rparr>"
  by (cases cls)
     (simp_all add: matrix_init_def FeatherMatrix_init_def ParquetMatrix_init_def open_stored_def
        write_arrow_table_def metadata_get_def ingested_table_def literal_eval_str_tuple init_shape_def)

lemma ingest_frame_file:
  fixes f :: "'a omx_file"
  assumes names: "distinct (map fst (omx_data f))"
    and shapes: "\<forall>node\<in>set (omx_data f). nd_shape (snd node) = omx_shape f
                   \<and> int (length (nd_data (snd node))) = prod_list (omx_shape f)"
  shows "\<exists>ix. ingest_frame (OmxFile f) shp = Inr (\<lparr>df_index = ix, df_columns = flat_columns f\<rparr>, omx_shape f)
           \<and> (omx_data f \<noteq> [] \<longrightarrow> index_len ix = nat (prod_list (omx_shape f)))"
proof -
  have d: "distinct (map fst (flat_columns f))" using names by (simp add: flat_columns_def comp_def)
  have "\<forall>a\<in>set (map snd (flat_columns f)). length a = nat (prod_list (omx_shape f))"
    using shapes by (auto simp: flat_columns_def reshape_flat_def)
  then have s: "same_lengths (map snd (flat_columns f))" by (rule same_lengths_all)
  have first: "omx_data f \<noteq> [] \<longrightarrow>
      (case flat_columns f of [] \<Rightarrow> 0 | c # _ \<Rightarrow> length (snd c)) = nat (prod_list (omx_shape f))"
    using shapes by (cases "omx_data f") (auto simp: flat_columns_def reshape_flat_def)
  show ?thesis using s first
    by (simp add: ingest_frame_def dict_of_distinct [OF d] DataFrame_from_dict_def
          flat_columns_def [symmetric] index_len_def)
qed

lemma to_arrow_file:
  fixes f :: "'a omx_file"
  assumes src: "omx_file = OmxFile f \<or> (\<exists>p. omx_file = Path p \<and> open_file p = Inr f)"
    and names: "distinct (map fst (omx_data f))"
    and shapes: "\<forall>node\<in>set (omx_data f). nd_shape (snd node) = omx_shape f
                   \<and> int (length (nd_data (snd node))) = prod_list (omx_shape f)"
  shows "\<exists>df. df_columns df = flat_columns f \<and>
           (omx_data f \<noteq> [] \<longrightarrow> index_len (df_index df) = nat (prod_list (omx_shape f))) \<and>
           omx_hdf5_2_to_arrow open_file pm omx_file shp = Inr (ingested_table pm df (omx_shape f))"
proof -
  obtain ix where fr: "ingest_frame (OmxFile f) shp
      = Inr (\<lparr>df_index = ix, df_columns = flat_columns f\<rparr>, omx_shape f)"
    and ixl: "omx_data f \<noteq> [] \<longrightarrow> index_len ix = nat (prod_list (omx_shape f))"
    using ingest_frame_file [OF names shapes] by blast
  let ?df = "\<lparr>df_index = ix, df_columns = flat_columns f\<rparr>"
  have "omx_hdf5_2_to_arrow open_file pm omx_file shp = Inr (ingested_table pm ?df (omx_shape f))"
    using src fr
    by (auto simp: omx_hdf5_2_to_arrow_def pa_table_def ingested_table_def OMX_VERSION_def)
  then show ?thesis using ixl by (intro exI [of _ ?df]) simp
qed

text \<open>
  C2 (round trip). Take an OMX source, given as an open file or as a path that opens,
  whose \<^verbatim>\<open>/data\<close> nodes have distinct names and all have the file's shape (every
  dimension non-negative, as many elements as the shape says), and a destination that
  is free or may be overwritten. Then \<^verbatim>\<open>from_hdf5\<close> succeeds for either backend; opening
  the written file again gives the matrix object it returned; and for every matrix \<open>M\<close>
  stored under \<open>name\<close> in the source, \<^verbatim>\<open>get_matrix(name)\<close> returns an array with the
  shape and the elements of \<open>M\<close>.
\<close>

theorem from_hdf5_round_trip:
  fixes f :: "'a omx_file" and M :: "'a ndarray"
  assumes src: "omx_file = OmxFile f \<or> (\<exists>p. omx_file = Path p \<and> open_file p = Inr f)"
    and free: "fs to_filename = None \<or> overwrite"
    and names: "distinct (map fst (omx_data f))"
    and shapes: "\<forall>node\<in>set (omx_data f). nd_shape (snd node) = omx_shape f
                   \<and> int (length (nd_data (snd node))) = prod_list (omx_shape f)"
    and nonneg: "\<forall>d\<in>set (omx_shape f). 0 \<le> d"
    and M: "(name, M) \<in> set (omx_data f)"
  shows "\<exists>fs' m. from_hdf5 cls open_file pm fs omx_file to_filename overwrite shp = Inr (fs', m)
           \<and> matrix_init cls fs' to_filename = Inr m
           \<and> get_matrix m name = Inr M"
proof -
  obtain df where cols: "df_columns df = flat_columns f"
    and rows: "omx_data f \<noteq> [] \<longrightarrow> index_len (df_index df) = nat (prod_list (omx_shape f))"
    and arrow: "omx_hdf5_2_to_arrow open_file pm omx_file shp = Inr (ingested_table pm df (omx_shape f))"
    using to_arrow_file [OF src names shapes] by blast
  let ?tbl = "ingested_table pm df (omx_shape f)"
  let ?fs = "write_arrow_table cls fs to_filename ?tbl shp"
  let ?m = "\<lparr>m_filename = to_filename, m_omx_version = Some ''0.3.0a'', m_shape = Some (omx_shape f),
            m_backend = cls, m_column_defs = map fst (df_columns df), m_table = ?tbl\<rparr>"
  have init: "matrix_init cls ?fs to_filename = Inr ?m" by (rule matrix_init_written)
  have chk: "check_write_file fs to_filename overwrite = Inr ()"
    using free by (auto simp: check_write_file_def)
  have run: "from_hdf5 cls open_file pm fs omx_file to_filename overwrite shp = Inr (?fs, ?m)"
    by (simp add: from_hdf5_def chk arrow init)
  have tc: "t_columns ?tbl = flat_columns f" by (simp add: ingested_table_def cols)
  have d: "distinct (map fst (t_columns (m_table ?m)))"
    using names by (simp add: tc flat_columns_def comp_def)
  have mem: "(name, nd_data M) \<in> set (t_columns (m_table ?m))"
    using M by (force simp: tc flat_columns_def reshape_flat_def)
  have sh: "nd_shape M = omx_shape f" "int (length (nd_data M)) = prod_list (omx_shape f)"
    using shapes M by auto
  have nr: "t_num_rows (m_table ?m) = length (nd_data M)"
    using rows M sh(2) by (auto simp: ingested_table_def)
  have "get_matrix ?m name = Inr \<lparr>nd_shape = omx_shape f, nd_data = nd_data M\<rparr>"
    by (rule get_matrix_column [OF d mem _ nonneg sh(2) nr]) simp
  also have "\<lparr>nd_shape = omx_shape f, nd_data = nd_data M\<rparr> = M" using sh(1) by simp
  finally have "get_matrix ?m name = Inr M" .
  then show ?thesis using run init by blast
qed


text \<open>C2 for the Parquet backend on the small source file.\<close>

theorem from_hdf5_round_trip_witness:
  "\<exists>fs' m. from_hdf5 Parquet (\<lambda>p. Inl (IOError p)) (\<lambda>df. ''{}'') (\<lambda>p. None) (OmxFile tiny_skims)
              ''skims.pqmx'' False None = Inr (fs', m)
         \<and> matrix_init Parquet fs' ''skims.pqmx'' = Inr m
         \<and> get_matrix m ''TIME'' = Inr \<lparr>nd_shape = [2, 3], nd_data = [10, 20, 30, 40, 50, 60]\<rparr>"
proof -
  have src: "OmxFile tiny_skims = OmxFile tiny_skims \<or>
      (\<exists>p. OmxFile tiny_skims = Path p \<and> (\<lambda>p. Inl (IOError p)) p = Inr tiny_skims)" by simp
  have free: "(\<lambda>p. None :: (backend \<times> int arrow_table) option) ''skims.pqmx'' = None \<or> False" by simp
  have names: "distinct (map fst (omx_data tiny_skims))" by (simp add: tiny_skims_def)
  have shapes: "\<forall>node\<in>set (omx_data tiny_skims). nd_shape (snd node) = omx_shape tiny_skims
                   \<and> int (length (nd_data (snd node))) = prod_list (omx_shape tiny_skims)"
    by (simp add: tiny_skims_def)
  have nonneg: "\<forall>d\<in>set (omx_shape tiny_skims). 0 \<le> d" by (simp add: tiny_skims_def)
  have M: "(''TIME'', \<lparr>nd_shape = [2, 3], nd_data = [10, 20, 30, 40, 50, 60]\<rparr>) \<in> set (omx_data tiny_skims)"
    by (simp add: tiny_skims_def)
  show ?thesis
    by (rule from_hdf5_round_trip [OF src free names shapes nonneg M])
qed


subsection \<open>Slice bounds\<close>

lemma arange_bounds:
  assumes "0 < step" and "x \<in> set (np_arange start (Some stop) step)"
  shows "start \<le> x \<and> x < stop"
proof -
  let ?n = "(stop - start + step - 1) div step"
  from assms obtain k where k: "k < nat ?n" and x: "x = start + int k * step"
    by (auto simp: np_arange_def arange_len_def)
  have "int k + 1 \<le> ?n" using k by linarith
  then have "(int k + 1) * step \<le> ?n * step" using assms(1) by (intro mult_right_mono) auto
  also have "?n * step \<le> stop - start + step - 1"
  proof -
    have "step * ?n + (stop - start + step - 1) mod step = stop - start + step - 1"
      by (rule mult_div_mod_eq)
    moreover have "0 \<le> (stop - start + step - 1) mod step" using assms(1) by simp
    ultimately have "step * ?n \<le> stop - start + step - 1" by linarith
    then show ?thesis by (simp add: mult.commute)
  qed
  finally have "int k * step < stop - start" by (simp add: algebra_simps)
  moreover have "0 \<le> int k * step" using assms(1) by simp
  ultimately show ?thesis using x by simp
qed

lemma slice_to_range_unfold:
  "slice_to_range (DSlice sl) dim_size =
     np_arange (case sl_start sl of None \<Rightarrow> 0 | Some a \<Rightarrow> a)
               (Some (case sl_stop sl of None \<Rightarrow> dim_size | Some e \<Rightarrow> min e dim_size))
               (case sl_step sl of None \<Rightarrow> 1 | Some k \<Rightarrow> if k = 0 then 1 else k)"
  by (simp add: slice_to_range_def cap_def py_or_def split: option.splits)

lemma slice_range_bounds:
  assumes step: "sl_step sl = None \<or> (\<exists>k. sl_step sl = Some k \<and> 0 \<le> k)"
    and x: "x \<in> set (slice_to_range (DSlice sl) dim_size)"
  shows "(case sl_start sl of None \<Rightarrow> 0 | Some a \<Rightarrow> a) \<le> x \<and> x < dim_size
         \<and> (\<forall>e. sl_stop sl = Some e \<longrightarrow> x < e)"
proof -
  let ?step = "case sl_step sl of None \<Rightarrow> 1 | Some k \<Rightarrow> if k = 0 then 1 else k"
  let ?stop = "case sl_stop sl of None \<Rightarrow> dim_size | Some e \<Rightarrow> min e dim_size"
  have pos: "0 < ?step" using step by (auto split: option.splits)
  have "x \<in> set (np_arange (case sl_start sl of None \<Rightarrow> 0 | Some a \<Rightarrow> a) (Some ?stop) ?step)"
    using x by (simp only: slice_to_range_unfold)
  then have "(case sl_start sl of None \<Rightarrow> 0 | Some a \<Rightarrow> a) \<le> x \<and> x < ?stop"
    by (rule arange_bounds [OF pos])
  then show ?thesis by (auto split: option.splits)
qed

text \<open>
  C10 (slice bounds). \<^verbatim>\<open>_cap\<close> replaces a stop that is \<^verbatim>\<open>None\<close> or larger than the dimension
  size by the dimension size and keeps a smaller stop; \<^verbatim>\<open>start or 0\<close> turns \<^verbatim>\<open>None\<close> into 0
  and \<^verbatim>\<open>step or 1\<close> turns \<^verbatim>\<open>None\<close> and 0 into 1, so a slice is realised as
  \<^verbatim>\<open>arange(start or 0, min(stop, size), step or 1)\<close>. For a start and a step that are absent
  or non-negative, every element of the realised range lies in \<open>0 ..< size\<close>, however
  large the stop, and every flat offset that \<^verbatim>\<open>_take_array\<close> builds from two such slices
  lies in \<open>0 ..< size * d1\<close>.
\<close>

theorem slice_bound_normalization:
  assumes step: "sl_step sl = None \<or> (\<exists>k. sl_step sl = Some k \<and> 0 \<le> k)"
    and start: "sl_start sl = None \<or> (\<exists>a. sl_start sl = Some a \<and> 0 \<le> a)"
  shows "cap None (Some dim_size) = Some dim_size
       \<and> (\<forall>e. dim_size < e \<longrightarrow> cap (Some e) (Some dim_size) = Some dim_size)
       \<and> (\<forall>e. e \<le> dim_size \<longrightarrow> cap (Some e) (Some dim_size) = Some e)
       \<and> py_or None 0 = 0 \<and> py_or None 1 = 1 \<and> py_or (Some 0) 1 = 1
       \<and> slice_to_range (DSlice sl) dim_size =
            np_arange (case sl_start sl of None \<Rightarrow> 0 | Some a \<Rightarrow> a)
               (Some (case sl_stop sl of None \<Rightarrow> dim_size | Some e \<Rightarrow> min e dim_size))
               (case sl_step sl of None \<Rightarrow> 1 | Some k \<Rightarrow> if k = 0 then 1 else k)
       \<and> (\<forall>x\<in>set (slice_to_range (DSlice sl) dim_size). 0 \<le> x \<and> x < dim_size)
       \<and> (\<forall>sl2 d1 tk ts. (sl_step sl2 = None \<or> (\<exists>k. sl_step sl2 = Some k \<and> 0 \<le> k))
             \<and> (sl_start sl2 = None \<or> (\<exists>a. sl_start sl2 = Some a \<and> 0 \<le> a))
             \<and> take_array (DSlice sl) (DSlice sl2) [dim_size, d1] = Inr (tk, ts)
             \<longrightarrow> (\<forall>t\<in>set tk. 0 \<le> t \<and> t < dim_size * d1))"
proof -
  have rng: "\<forall>x\<in>set (slice_to_range (DSlice sl) dim_size). 0 \<le> x \<and> x < dim_size"
  proof
    fix x assume x: "x \<in> set (slice_to_range (DSlice sl) dim_size)"
    have "(case sl_start sl of None \<Rightarrow> 0 | Some a \<Rightarrow> a) \<le> x \<and> x < dim_size"
      using slice_range_bounds [OF step x] by simp
    then show "0 \<le> x \<and> x < dim_size" using start by (auto split: option.splits)
  qed
  have flat: "\<forall>t\<in>set tk. 0 \<le> t \<and> t < dim_size * d1"
    if s2: "sl_step sl2 = None \<or> (\<exists>k. sl_step sl2 = Some k \<and> 0 \<le> k)"
      and a2: "sl_start sl2 = None \<or> (\<exists>a. sl_start sl2 = Some a \<and> 0 \<le> a)"
      and ta: "take_array (DSlice sl) (DSlice sl2) [dim_size, d1] = Inr (tk, ts)"
    for sl2 d1 tk ts
  proof
    fix t assume "t \<in> set tk"
    then obtain i j where i: "i \<in> set (slice_to_range (DSlice sl) dim_size)"
      and j: "j \<in> set (slice_to_range (DSlice sl2) d1)" and t: "t = i * d1 + j"
      using ta by (auto simp: take_array_def np_add_outer_def grid_scale_def reshape_column_def Let_def)
    have ib: "0 \<le> i" "i < dim_size" using rng i by auto
    have "(case sl_start sl2 of None \<Rightarrow> 0 | Some a \<Rightarrow> a) \<le> j \<and> j < d1"
      using slice_range_bounds [OF s2 j] by simp
    then have jb: "0 \<le> j" "j < d1" using a2 by (auto split: option.splits)
    have "i * d1 + j < (i + 1) * d1" using jb by (simp add: algebra_simps)
    also have "\<dots> \<le> dim_size * d1" using ib jb by (intro mult_right_mono) auto
    finally have "t < dim_size * d1" using t by simp
    moreover have "0 \<le> t" using t ib jb by simp
    ultimately show "0 \<le> t \<and> t < dim_size * d1" by simp
  qed
  show ?thesis
    using rng flat by (simp add: cap_def py_or_def slice_to_range_unfold [symmetric]) blast
qed

text \<open>C10 for the slice \<^verbatim>\<open>[:99:0]\<close> on a dimension of size 5.\<close>

theorem slice_bound_normalization_witness:
  "slice_to_range (DSlice \<lparr>sl_start = None, sl_stop = Some 99, sl_step = Some 0\<rparr>) 5
     = [0, 1, 2, 3, 4]"
proof -
  let ?sl = "\<lparr>sl_start = None, sl_stop = Some 99, sl_step = Some 0\<rparr>"
  have a: "sl_step ?sl = None \<or> (\<exists>k. sl_step ?sl = Some k \<and> 0 \<le> k)" by simp
  have b: "sl_start ?sl = None \<or> (\<exists>a. sl_start ?sl = Some a \<and> 0 \<le> a)" by simp
  have "slice_to_range (DSlice ?sl) 5 = np_arange 0 (Some 5) 1"
    using slice_bound_normalization [OF a b, of 5] by simp
  also have "\<dots> = [0, 1, 2, 3, 4]"
    by (simp add: np_arange_def arange_len_def upt_rec)
  finally show ?thesis .
qed

subsection \<open>Opening a file without shape metadata\<close>

text \<open>
  C5 (missing shape). Both \<^verbatim>\<open>__init__\<close> methods read \<^verbatim>\<open>schema.metadata[b'SHAPE']\<close> directly.
  On a stored table without that entry the lookup raises \<^verbatim>\<open>KeyError\<close>, not
  \<^verbatim>\<open>MissingShapeError\<close>; \<^verbatim>\<open>ParquetMatrix\<close> does so even when a shape is passed in, because
  it overwrites the argument before using it.
\<close>

theorem open_without_shape_raises_KeyError:
  "FeatherMatrix_init (\<lambda>p. if p = ''m.feathermatrix'' then Some (Feather, no_shape_table) else None)
       ''m.feathermatrix'' = Inl (KeyError ''SHAPE'')
   \<and> ParquetMatrix_init (\<lambda>p. if p = ''m.pqmx'' then Some (Parquet, no_shape_table) else None)
       ''m.pqmx'' None None = Inl (KeyError ''SHAPE'')
   \<and> ParquetMatrix_init (\<lambda>p. if p = ''m.pqmx'' then Some (Parquet, no_shape_table) else None)
       ''m.pqmx'' (Some ''0.3.0a'') (Some [2, 2]) = Inl (KeyError ''SHAPE'')"
  by (simp add: FeatherMatrix_init_def ParquetMatrix_init_def open_stored_def metadata_get_def
        no_shape_table_def)

subsection \<open>The all-matrices selector\<close>

text \<open>
  C8 (all matrices). In \<^verbatim>\<open>__getitem__\<close>, \<^verbatim>\<open>len(names)\<close> is evaluated before the test
  \<^verbatim>\<open>isinstance(names, slice)\<close>. For \<^verbatim>\<open>matrix[:, 0:1, 0:1]\<close> the names selector is a slice,
  \<^verbatim>\<open>len\<close> raises \<^verbatim>\<open>TypeError\<close>, and the branch that would substitute \<^verbatim>\<open>list_matrices()\<close> is
  never reached.
\<close>

theorem getitem_all_matrices_raises_TypeError:
  "getitem (\<lambda>v. v) tiny_matrix
       (NSlice \<lparr>sl_start = None, sl_stop = None, sl_step = None\<rparr>,
        [DSlice \<lparr>sl_start = Some 0, sl_stop = Some 1, sl_step = None\<rparr>,
         DSlice \<lparr>sl_start = Some 0, sl_stop = Some 1, sl_step = None\<rparr>])
     = Inl (TypeError ''object of type slice has no len()'')
   \<and> list_matrices tiny_matrix = [''DIST'', ''TIME'']"
  by (simp add: getitem_def shape_def tiny_matrix_def py_len_def list_matrices_def)

subsection \<open>Row-gather engine\<close>

lemma collect_map_Inr: "(\<And>x. x \<in> set xs \<Longrightarrow> f x = Inr (g x)) \<Longrightarrow> collect (map f xs) = Inr (map g xs)"
  by (induction xs) simp_all

lemma column_member:
  assumes "distinct (map fst cols)" and "k \<in> fst ` set cols"
  shows "(k, column_of cols k) \<in> set cols"
proof -
  from assms(2) obtain v where v: "(k, v) \<in> set cols" by force
  then have "map_of cols k = Some v" using assms(1) by simp
  then show ?thesis using v by (simp add: column_of_def)
qed

lemma filter_column:
  assumes "distinct (map fst cols)" and "k \<in> fst ` set cols"
  shows "filter (\<lambda>c. fst c = k) cols = [(k, column_of cols k)]"
  by (rule filter_unique [OF assms(1) column_member [OF assms]])

lemma first_occurrences_distinct: "distinct ks \<Longrightarrow> first_occurrences ks = ks"
  by (simp add: first_occurrences_def distinct_remdups_id)

lemma get_arrow_table_names:
  assumes d: "distinct (map fst (t_columns (m_table self)))"
    and ks: "distinct ks" "set ks \<subseteq> fst ` set (t_columns (m_table self))"
  shows "get_arrow_table self (Some ks) =
           Inr ((m_table self)\<lparr>t_columns := map (\<lambda>k. (k, column_of (t_columns (m_table self)) k)) ks\<rparr>)"
proof (cases "m_backend self")
  case Feather
  have "collect (map (field_by_name (t_columns (m_table self))) ks)
          = Inr (map (\<lambda>k. (k, column_of (t_columns (m_table self)) k)) ks)"
  proof (rule collect_map_Inr)
    fix k assume "k \<in> set ks"
    then have "k \<in> fst ` set (t_columns (m_table self))" using ks(2) by blast
    then show "field_by_name (t_columns (m_table self)) k = Inr (k, column_of (t_columns (m_table self)) k)"
      by (simp add: field_by_name_def filter_column [OF d])
  qed
  then show ?thesis using Feather by (simp add: get_arrow_table_def table_select_def)
next
  case Parquet
  have "concat (map (\<lambda>n. filter (\<lambda>c. fst c = n) (t_columns (m_table self))) ks)
          = map (\<lambda>k. (k, column_of (t_columns (m_table self)) k)) ks"
    using ks(2) by (induction ks) (simp_all add: filter_column [OF d])
  then show ?thesis using Parquet
    by (simp add: get_arrow_table_def parquet_read_def first_occurrences_distinct [OF ks(1)])
qed






lemma method4_result:
  assumes d: "distinct (map fst (t_columns (m_table self)))"
    and ks: "distinct ks" "set ks \<subseteq> fst ` set (t_columns (m_table self))"
    and rng: "take_ok (t_num_rows (m_table self)) tk"
  shows "get_rc_by_takers astype self (NList ks) tk 4 =
           Inr (GFrame \<lparr>df_index = RangeIndex (length tk),
                        df_columns = gathered_columns (t_columns (m_table self)) ks tk\<rparr>)"
  using rng
  by (simp add: get_rc_by_takers_def get_arrow_table_names [OF d ks] table_take_def to_pandas_def
        gathered_columns_def comp_def)










lemma tiny_columns:
  "t_columns (m_table tiny_matrix) = [(''DIST'', [1, 2, 3, 4, 5, 6]), (''TIME'', [10, 20, 30, 40, 50, 60])]"
  by (simp add: tiny_matrix_def ingested_table_def flat_columns_def tiny_skims_def reshape_flat_def)

lemma tiny_rows: "t_num_rows (m_table tiny_matrix) = 6"
  by (simp add: tiny_matrix_def ingested_table_def index_len_def)


subsection \<open>Slice materializer\<close>

lemma length_grid_pairs: "length (grid_pairs r0 r1) = length r0 * length r1"
  by (induction r0) (simp_all add: grid_pairs_def)

lemma take_array_2d:
  "take_array s1 s2 (R # C # extra) =
     Inr (map (\<lambda>p. fst p * C + snd p) (grid_pairs (slice_to_range s1 R) (slice_to_range s2 C)),
          (length (slice_to_range s1 R), length (slice_to_range s2 C)))"
  by (simp add: take_array_def np_add_outer_def grid_scale_def reshape_column_def grid_pairs_def
        map_concat comp_def Let_def)

lemma concat_rows_cong:
  "(\<And>i j. i < r \<Longrightarrow> j < c \<Longrightarrow> f i j = g i j) \<Longrightarrow>
   concat (map (\<lambda>i. map (\<lambda>j. f i j) [0..<c]) [0..<r]) = concat (map (\<lambda>i. map (\<lambda>j. g i j) [0..<c]) [0..<r])"
  by (rule arg_cong [where f = concat]) (simp cong: map_cong)

lemma map_nth_fun: "map (\<lambda>i. h (xs ! i)) [0..<length xs] = map h xs"
proof -
  have "map (\<lambda>i. h (xs ! i)) [0..<length xs] = map h (map (\<lambda>i. xs ! i) [0..<length xs])"
    by (simp add: comp_def)
  then show ?thesis by (simp only: map_nth)
qed

lemma grid_fst:
  "concat (map (\<lambda>i. map (\<lambda>j. r0 ! i) [0..<length r1]) [0..<length r0]) = map fst (grid_pairs r0 r1)"
proof -
  have "map (\<lambda>i. map (\<lambda>j. r0 ! i) [0..<length r1]) [0..<length r0]
          = map (\<lambda>x. replicate (length r1) x) r0"
    using map_nth_fun [of "\<lambda>x. replicate (length r1) x" r0] by (simp add: map_replicate_const)
  then show ?thesis by (simp add: grid_pairs_def map_concat comp_def map_replicate_const)
qed

lemma grid_snd:
  "concat (map (\<lambda>i. map (\<lambda>j. r1 ! j) [0..<length r1]) [0..<length r0]) = map snd (grid_pairs r0 r1)"
  by (simp add: map_nth grid_pairs_def map_concat comp_def map_replicate_const)

lemma broadcast_column:
  "np_broadcast_to (reshape_column r0) (length r0, length r1) =
     Inr \<lparr>g_shape = (length r0, length r1), g_data = map fst (grid_pairs r0 r1)\<rparr>"
  apply (simp add: np_broadcast_to_def reshape_column_def)
  apply (rule trans [OF concat_rows_cong grid_fst])
  apply auto
  done

lemma broadcast_row:
  "np_broadcast_to (as_row r1) (length r0, length r1) =
     Inr \<lparr>g_shape = (length r0, length r1), g_data = map snd (grid_pairs r0 r1)\<rparr>"
  apply (simp add: np_broadcast_to_def as_row_def)
  apply (rule trans [OF concat_rows_cong grid_snd])
  apply auto
  done

lemma frame_one_column_to_numpy:
  "length v = n \<Longrightarrow>
   df_to_numpy \<lparr>df_index = RangeIndex n, df_columns = [(k, v)]\<rparr> = \<lparr>nd_shape = [int n, 1], nd_data = v\<rparr>"
  by (auto simp: df_to_numpy_def index_len_def Let_def map_nth)

lemma gathered_grid:
  "gathered_columns cols ks (map (\<lambda>p. fst p * C + snd p) ps)
     = map (\<lambda>k. (k, map (\<lambda>p. column_of cols k ! nat (fst p * C + snd p)) ps)) ks"
  by (simp add: gathered_columns_def comp_def)

text \<open>
  C7 (output shape of the slice materializer). Take a matrix of shape \<open>(R, C)\<close> whose
  table has distinct column names, let \<open>r0\<close> and \<open>r1\<close> be the ranges that the first two
  selectors (after padding, integers turned into one-element slices) realise on the two
  dimensions, and let every offset \<open>i * C + j\<close> of the block lie within the rows of
  the table. With one requested name, given as a string or as a one-element list,
  \<^verbatim>\<open>__getitem__\<close> returns a dense array of shape \<open>(len r0, len r1)\<close> holding the cells
  of that column at the block's offsets, row by row. With several distinct names it
  returns a frame with one column per name, in the order asked, holding the same cells,
  under a two-level row label whose levels are the \<open>r0\<close> and \<open>r1\<close> coordinates of the
  block, each flattened row-major.
\<close>

theorem getitem_output_shape:
  fixes self :: "'a arrow_matrix"
  assumes shp: "m_shape self = Some [R, C]"
    and d: "distinct (map fst (t_columns (m_table self)))"
    and r0: "r0 = slice_to_range (int_to_slice (padded_selectors sels 2 ! 0)) R"
    and r1: "r1 = slice_to_range (int_to_slice (padded_selectors sels 2 ! 1)) C"
    and rng: "take_ok (t_num_rows (m_table self)) (map (\<lambda>p. fst p * C + snd p) (grid_pairs r0 r1))"
  shows "(k \<in> fst ` set (t_columns (m_table self)) \<and> (names = NStr k \<or> names = NList [k]) \<longrightarrow>
            getitem astype self (names, sels) =
              Inr (Dense \<lparr>nd_shape = [int (length r0), int (length r1)],
                          nd_data = map (\<lambda>p. column_of (t_columns (m_table self)) k ! nat (fst p * C + snd p))
                                      (grid_pairs r0 r1)\<rparr>))
       \<and> (1 < length ks \<and> distinct ks \<and> set ks \<subseteq> fst ` set (t_columns (m_table self)) \<longrightarrow>
            getitem astype self (NList ks, sels) =
              Inr (Labelled (GFrame
                \<lparr>df_index = MultiIndex \<lparr>mi_names = [None, None],
                                        mi_arrays = [map fst (grid_pairs r0 r1), map snd (grid_pairs r0 r1)]\<rparr>,
                 df_columns = map (\<lambda>k. (k, map (\<lambda>p. column_of (t_columns (m_table self)) k
                                                      ! nat (fst p * C + snd p)) (grid_pairs r0 r1))) ks\<rparr>)))"
proof -
  let ?cols = "t_columns (m_table self)"
  let ?tk = "map (\<lambda>p. fst p * C + snd p) (grid_pairs r0 r1)"
  have "2 \<le> length (padded_selectors sels 2)" by (simp add: padded_selectors_def)
  then obtain s1 s2 rest where pad: "padded_selectors sels 2 = s1 # s2 # rest"
    by (cases "padded_selectors sels 2"; cases "tl (padded_selectors sels 2)") auto
  have pad': "sels @ replicate (Suc (Suc 0) - length sels) slice_None = s1 # s2 # rest"
    using pad by (simp add: padded_selectors_def numeral_2_eq_2)
  have r0': "slice_to_range (int_to_slice s1) R = r0" using r0 pad by simp
  have r1': "slice_to_range (int_to_slice s2) C = r1" using r1 pad by simp
  have ta: "take_array (int_to_slice s1) (int_to_slice s2) [R, C] = Inr (?tk, (length r0, length r1))"
    by (simp only: take_array_2d r0' r1')
  have ltk: "length ?tk = length r0 * length r1" by (simp add: length_grid_pairs)
  have one: "getitem astype self (names, sels) =
              Inr (Dense \<lparr>nd_shape = [int (length r0), int (length r1)],
                          nd_data = map (\<lambda>p. column_of ?cols k ! nat (fst p * C + snd p)) (grid_pairs r0 r1)\<rparr>)"
    if k: "k \<in> fst ` set ?cols" and names: "names = NStr k \<or> names = NList [k]"
  proof -
    let ?v = "map (\<lambda>p. column_of ?cols k ! nat (fst p * C + snd p)) (grid_pairs r0 r1)"
    have g: "get_rc_by_takers astype self (NList [k]) ?tk 4 =
               Inr (GFrame \<lparr>df_index = RangeIndex (length ?tk), df_columns = [(k, ?v)]\<rparr>)"
      using method4_result [OF d _ _ rng, of "[k]" astype] k by (simp add: gathered_grid)
    have np: "gathered_to_numpy (GFrame \<lparr>df_index = RangeIndex (length (grid_pairs r0 r1)),
                                          df_columns = [(k, ?v)]\<rparr>)
                = \<lparr>nd_shape = [int (length (grid_pairs r0 r1)), 1], nd_data = ?v\<rparr>"
      by (simp add: gathered_to_numpy_def frame_one_column_to_numpy)
    have rs: "np_reshape \<lparr>nd_shape = [int (length (grid_pairs r0 r1)), 1], nd_data = ?v\<rparr>
                  [int (length r0), int (length r1)]
                = Inr \<lparr>nd_shape = [int (length r0), int (length r1)], nd_data = ?v\<rparr>"
      using np_reshape_same [of "[int (length r0), int (length r1)]"
               "\<lparr>nd_shape = [int (length (grid_pairs r0 r1)), 1], nd_data = ?v\<rparr>"]
      by (simp add: length_grid_pairs)
    have pl: "py_len (NList [k]) = Inr 1" by (simp add: py_len_def)
    show ?thesis using names
      by (auto simp: getitem_def shape_Some [OF shp] pad' pl ta g np rs Let_def
            simp del: replicate.simps)
  qed
  have many: "getitem astype self (NList ks, sels) =
              Inr (Labelled (GFrame
                \<lparr>df_index = MultiIndex \<lparr>mi_names = [None, None],
                                        mi_arrays = [map fst (grid_pairs r0 r1), map snd (grid_pairs r0 r1)]\<rparr>,
                 df_columns = map (\<lambda>k. (k, map (\<lambda>p. column_of ?cols k ! nat (fst p * C + snd p))
                                              (grid_pairs r0 r1))) ks\<rparr>))"
    if n: "1 < length ks" and ks: "distinct ks" "set ks \<subseteq> fst ` set ?cols"
  proof -
    let ?g = "map (\<lambda>k. (k, map (\<lambda>p. column_of ?cols k ! nat (fst p * C + snd p)) (grid_pairs r0 r1))) ks"
    let ?mi = "\<lparr>mi_names = [None, None],
                mi_arrays = [map fst (grid_pairs r0 r1), map snd (grid_pairs r0 r1)]\<rparr>"
    have g: "get_rc_by_takers astype self (NList ks) ?tk 4 =
               Inr (GFrame \<lparr>df_index = RangeIndex (length ?tk), df_columns = ?g\<rparr>)"
      using method4_result [OF d ks rng, of astype] by (simp add: gathered_grid)
    have pl: "py_len (NList ks) = Inr (length ks)" by (simp add: py_len_def)
    have mi: "MultiIndex_from_arrays [map fst (grid_pairs r0 r1), map snd (grid_pairs r0 r1)] [None, None]
               = Inr ?mi"
      by (simp add: MultiIndex_from_arrays_def)
    have si: "set_index (GFrame \<lparr>df_index = RangeIndex (length (grid_pairs r0 r1)), df_columns = ?g\<rparr>)
                (MultiIndex ?mi)
               = Inr (GFrame \<lparr>df_index = MultiIndex ?mi, df_columns = ?g\<rparr>)"
      by (simp add: set_index_def index_len_def gathered_rows_def)
    show ?thesis using n
      by (simp add: getitem_def shape_Some [OF shp] pad' pl ta g Let_def r0' r1'
            broadcast_column broadcast_row mi si del: replicate.simps)
  qed
  show ?thesis using one many by blast
qed

text \<open>C7 on the small matrix for the block \<^verbatim>\<open>[:9, 1::0]\<close>: rows 0 and 1, columns 1 and 2.\<close>

theorem getitem_output_shape_witness:
  "getitem (\<lambda>v. v) tiny_matrix
      (NStr ''DIST'', [DSlice \<lparr>sl_start = None, sl_stop = Some 9, sl_step = None\<rparr>,
                       DSlice \<lparr>sl_start = Some 1, sl_stop = None, sl_step = Some 0\<rparr>])
     = Inr (Dense \<lparr>nd_shape = [2, 2], nd_data = [2, 3, 5, 6]\<rparr>)
   \<and> getitem (\<lambda>v. v) tiny_matrix
      (NList [''DIST'', ''TIME''], [DSlice \<lparr>sl_start = None, sl_stop = Some 9, sl_step = None\<rparr>,
                       DSlice \<lparr>sl_start = Some 1, sl_stop = None, sl_step = Some 0\<rparr>])
     = Inr (Labelled (GFrame
         \<lparr>df_index = MultiIndex \<lparr>mi_names = [None, None], mi_arrays = [[0, 0, 1, 1], [1, 2, 1, 2]]\<rparr>,
          df_columns = [(''DIST'', [2, 3, 5, 6]), (''TIME'', [20, 30, 50, 60])]\<rparr>))"
proof -
  let ?sels = "[DSlice \<lparr>sl_start = None, sl_stop = Some 9, sl_step = None\<rparr>,
                DSlice \<lparr>sl_start = Some 1, sl_stop = None, sl_step = Some 0\<rparr>]"
  have shp: "m_shape tiny_matrix = Some [2, 3]" by (simp add: tiny_matrix_def)
  have d: "distinct (map fst (t_columns (m_table tiny_matrix)))" by (simp add: tiny_columns)
  have r0: "[0, 1] = slice_to_range (int_to_slice (padded_selectors ?sels 2 ! 0)) 2"
    by (simp add: padded_selectors_def int_to_slice_def slice_to_range_def cap_def py_or_def
          np_arange_def arange_len_def upt_rec)
  have r1: "[1, 2] = slice_to_range (int_to_slice (padded_selectors ?sels 2 ! 1)) 3"
    by (simp add: padded_selectors_def int_to_slice_def slice_to_range_def cap_def py_or_def
          np_arange_def arange_len_def upt_rec)
  have gp: "grid_pairs [0, 1] [1, 2] = [(0, 1), (0, 2), (1, 1), (1, 2)]"
    by (simp add: grid_pairs_def)
  have rng: "take_ok (t_num_rows (m_table tiny_matrix))
               (map (\<lambda>p. fst p * 3 + snd p) (grid_pairs [0, 1] [1, 2]))"
    by (simp add: gp tiny_rows take_ok_def)
  note th = getitem_output_shape [OF shp d r0 r1 rng, where astype = "\<lambda>v. v"]
  have k: "''DIST'' \<in> fst ` set (t_columns (m_table tiny_matrix))" by (simp add: tiny_columns)
  have ks: "1 < length [''DIST'', ''TIME''] \<and> distinct [''DIST'', ''TIME'']
             \<and> set [''DIST'', ''TIME''] \<subseteq> fst ` set (t_columns (m_table tiny_matrix))"
    by (simp add: tiny_columns)
  have one: "getitem (\<lambda>v. v) tiny_matrix (NStr ''DIST'', ?sels)
     = Inr (Dense \<lparr>nd_shape = [2, 2], nd_data = [2, 3, 5, 6]\<rparr>)"
    using th [THEN conjunct1, rule_format, of "''DIST''" "NStr ''DIST''"] k
    by (simp add: gp column_of_def tiny_columns)
  have many: "getitem (\<lambda>v. v) tiny_matrix (NList [''DIST'', ''TIME''], ?sels)
     = Inr (Labelled (GFrame
         \<lparr>df_index = MultiIndex \<lparr>mi_names = [None, None], mi_arrays = [[0, 0, 1, 1], [1, 2, 1, 2]]\<rparr>,
          df_columns = [(''DIST'', [2, 3, 5, 6]), (''TIME'', [20, 30, 50, 60])]\<rparr>))"
    using th [THEN conjunct2, rule_format, OF ks]
    by (simp add: gp column_of_def tiny_columns)
  show ?thesis using one many by simp
qed

end
